theory Spec2Isabelle
  imports Complex_Main "HOL-Library.Sublist"
begin

section \<open>Python strings and numbers\<close>

text \<open>
  Strings are \<open>char list\<close>; the UIDs, file names and playlist lines the program handles
  are ASCII. \<open>str.upper()\<close> is modelled on the 26 ASCII letters and leaves every other
  character alone.
\<close>

definition py_upper_char :: "char \<Rightarrow> char" where
  "py_upper_char c =
     (case List.find (\<lambda>p. fst p = c)
             (zip ''abcdefghijklmnopqrstuvwxyz'' ''ABCDEFGHIJKLMNOPQRSTUVWXYZ'') of
        Some p \<Rightarrow> snd p
      | None \<Rightarrow> c)"

definition py_upper :: "string \<Rightarrow> string" where
  "py_upper s = map py_upper_char s"

text \<open>\<open>s[-n:]\<close>: the last \<open>n\<close> characters, the whole string when it is shorter.\<close>

definition py_last_n :: "nat \<Rightarrow> 'a list \<Rightarrow> 'a list" where
  "py_last_n n s = drop (length s - n) s"

text \<open>\<open>str(n)\<close> for a natural number: its decimal digits.\<close>

definition digit_char :: "nat \<Rightarrow> char" where
  "digit_char d = ''0123456789'' ! (d mod 10)"

fun str_nat :: "nat \<Rightarrow> string" where
  "str_nat n = (if n < 10 then [digit_char n] else str_nat (n div 10) @ [digit_char n])"

declare str_nat.simps [simp del]

text \<open>\<open>str(i)\<close> for a Python int.\<close>

definition str_int :: "int \<Rightarrow> string" where
  "str_int i = (if i < 0 then CHR ''-'' # str_nat (nat (- i)) else str_nat (nat i))"

section \<open>Content port: \<open>services/teddycloud.py\<close>\<close>

text \<open>
  A track as the encoders receive it: a dict read with \<open>.get\<close> and a default for
  each of the keys \<open>name\<close>, \<open>start\<close>, \<open>duration\<close>, so every key may be absent.
  Seconds are the integers of the upstream \<open>trackSeconds\<close> array.
\<close>

record track =
  tr_name :: "string option"
  tr_start :: "int option"
  tr_duration :: "int option"

text \<open>\<open>tonieInfo\<close> of a tag-index entry; an absent key reads as the empty string.\<close>

record tonie_info =
  ti_model :: string
  ti_series :: string
  ti_episode :: string
  ti_title :: string
  ti_picture :: string
  ti_tracks :: "string list"

text \<open>
  An entry of the tag index. \<open>tonieInfo = None\<close> stands for a missing or empty
  \<open>tonieInfo\<close> dict (both are falsy in \<open>if tonie_info:\<close>).
\<close>

record tag_entry =
  tag_uid :: string
  tag_source :: string
  tag_valid :: bool
  tag_exists :: bool
  tag_audioUrl :: string
  trackSeconds :: "int list"
  tonieInfo :: "tonie_info option"

text \<open>
  The dict \<open>find_tonie_by_uid\<close> returns. Entries of the catalog are returned as they
  are, so every key other than those the index branch always writes is optional.
\<close>

record tonie =
  t_uid :: "string option"
  t_source :: "string option"
  t_valid :: bool
  t_exists :: bool
  t_audio_path :: "string option"
  t_duration :: "int option"
  t_num_tracks :: "nat option"
  t_tracks :: "track list option"
  t_model :: "string option"
  t_series :: "string option"
  t_episode :: "string option"
  t_episodes :: "string option"
  t_title :: "string option"
  t_picture :: "string option"

text \<open>\<open>d.get(key, "")\<close> on an optional string.\<close>

definition get_str :: "string option \<Rightarrow> string" where
  "get_str v = (case v of None \<Rightarrow> [] | Some s \<Rightarrow> s)"

text \<open>\<open>uid.replace(":", "").upper()\<close>\<close>

definition normalize_uid :: "string \<Rightarrow> string" where
  "normalize_uid uid = py_upper (filter (\<lambda>c. c \<noteq> CHR '':'') uid)"

text \<open>\<open>cand == normalized_uid or cand.endswith(normalized_uid)\<close>\<close>

definition uid_matches :: "string \<Rightarrow> string \<Rightarrow> bool" where
  "uid_matches cand normalized_uid = (cand = normalized_uid \<or> suffix normalized_uid cand)"

text \<open>
  The loop \<open>for i in range(num_tracks)\<close> that cuts \<open>trackSeconds\<close> into tracks;
  \<open>i\<close> counts up from the first argument.
\<close>

fun build_tracks :: "nat \<Rightarrow> nat \<Rightarrow> int list \<Rightarrow> int \<Rightarrow> string list \<Rightarrow> track list" where
  "build_tracks i 0 ts duration names = []"
| "build_tracks i (Suc k) ts duration names =
     (let track_start = ts ! i;
          track_end = (if i + 1 < length ts then ts ! (i + 1) else duration);
          track_name = (if i < length names then names ! i else ''Track '' @ str_nat (i + 1))
      in \<lparr>tr_name = Some track_name,
          tr_start = Some track_start,
          tr_duration = Some (track_end - track_start)\<rparr>
         # build_tracks (i + 1) k ts duration names)"

definition tag_result :: "string \<Rightarrow> tag_entry \<Rightarrow> tonie" where
  "tag_result uid tag =
     (let track_seconds = trackSeconds tag;
          num_tracks = (if track_seconds \<noteq> [] then length track_seconds - 1 else 0);
          duration = (if track_seconds \<noteq> [] then last track_seconds else 0);
          track_names = (case tonieInfo tag of None \<Rightarrow> [] | Some ti \<Rightarrow> ti_tracks ti)
      in \<lparr>t_uid = Some uid,
          t_source = Some (tag_source tag),
          t_valid = tag_valid tag,
          t_exists = tag_exists tag,
          t_audio_path = Some (tag_audioUrl tag),
          t_duration = Some duration,
          t_num_tracks = Some num_tracks,
          t_tracks = Some (build_tracks 0 num_tracks track_seconds duration track_names),
          t_model = map_option ti_model (tonieInfo tag),
          t_series = map_option ti_series (tonieInfo tag),
          t_episode = map_option ti_episode (tonieInfo tag),
          t_episodes = None,
          t_title = map_option ti_title (tonieInfo tag),
          t_picture = map_option ti_picture (tonieInfo tag)\<rparr>)"

text \<open>
  \<open>find_tonie_by_uid\<close>: the first entry of the tag index whose UID matches, else the
  first catalog entry whose UID or model matches. The two lists are what
  \<open>get_tag_index\<close> and \<open>get_tonies\<close> returned (\<open>[]\<close> when the request failed).
\<close>

definition find_tonie_by_uid :: "string \<Rightarrow> tag_entry list \<Rightarrow> tonie list \<Rightarrow> tonie option" where
  "find_tonie_by_uid uid tags tonies =
     (let normalized_uid = normalize_uid uid in
      case List.find (\<lambda>tag. uid_matches (normalize_uid (tag_uid tag)) normalized_uid) tags of
        Some tag \<Rightarrow> Some (tag_result uid tag)
      | None \<Rightarrow>
          List.find (\<lambda>t. uid_matches (normalize_uid (get_str (t_uid t))) normalized_uid
                       \<or> uid_matches (py_upper (get_str (t_model t))) normalized_uid) tonies)"

text \<open>
  The boundary as the specification words it: the last 8 characters of the two UIDs,
  colons stripped and case folded, are equal.
\<close>

definition spec_last8_match :: "string \<Rightarrow> string \<Rightarrow> bool" where
  "spec_last8_match uid record_uid =
     (py_last_n 8 (normalize_uid uid) = py_last_n 8 (normalize_uid record_uid))"

definition example_tag :: "string \<Rightarrow> tag_entry" where
  "example_tag u = \<lparr>tag_uid = u, tag_source = [], tag_valid = True, tag_exists = True,
     tag_audioUrl = [], trackSeconds = [], tonieInfo = None\<rparr>"

section \<open>UID to device tag id: \<open>uid_to_espuino_tag_id\<close> in \<open>main.py\<close>\<close>

text \<open>
  \<open>int(p, 16)\<close> on a string, as CPython parses it: whitespace around the number is
  skipped, then an optional sign, an optional \<open>0x\<close> prefix (after which one
  underscore may follow), then hexadecimal digits with single underscores between them.
  Anything else raises \<open>ValueError\<close>.
\<close>

definition py_isspace :: "char \<Rightarrow> bool" where
  "py_isspace c = ((of_char c :: nat) \<in> set [9, 10, 11, 12, 13, 28, 29, 30, 31, 32])"

definition hex_digit_val :: "char \<Rightarrow> nat option" where
  "hex_digit_val c =
     map_of (zip ''0123456789ABCDEFabcdef''
                 [0, 1, 2, 3, 4, 5, 6, 7, 8, 9, 10, 11, 12, 13, 14, 15, 10, 11, 12, 13, 14, 15]) c"

definition int_body_char :: "char \<Rightarrow> bool" where
  "int_body_char c = (hex_digit_val c \<noteq> None \<or> c = CHR ''_'')"

fun double_underscore :: "string \<Rightarrow> bool" where
  "double_underscore (a # b # cs) = ((a = CHR ''_'' \<and> b = CHR ''_'') \<or> double_underscore (b # cs))"
| "double_underscore cs = False"

definition hex_value :: "string \<Rightarrow> nat" where
  "hex_value ds = foldl (\<lambda>acc c. 16 * acc + (case hex_digit_val c of Some d \<Rightarrow> d | None \<Rightarrow> 0)) 0 ds"

text \<open>The exceptions the modelled code can raise.\<close>

datatype py_error = ValueError | IndexError | TypeError | NameError

definition py_int16 :: "string \<Rightarrow> py_error + int" where
  "py_int16 s =
     (let s1 = dropWhile py_isspace s;
          negative = (take 1 s1 = ''-'');
          s2 = (if take 1 s1 = ''+'' \<or> take 1 s1 = ''-'' then drop 1 s1 else s1);
          s3 = (if take 2 s2 = ''0x'' \<or> take 2 s2 = ''0X''
                then (if take 1 (drop 2 s2) = ''_'' then drop 3 s2 else drop 2 s2)
                else s2);
          body = takeWhile int_body_char s3;
          rest = dropWhile int_body_char s3
      in if take 1 s3 = ''_'' \<or> body = [] \<or> double_underscore body \<or> last body = CHR ''_''
            \<or> \<not> list_all py_isspace rest
         then Inl ValueError
         else Inr ((if negative then - 1 else 1) * int (hex_value (filter (\<lambda>c. c \<noteq> CHR ''_'') body))))"

text \<open>The format specifications \<open>{n:03d}\<close> and \<open>{n:02d}\<close>: sign first, then zeros up to the width.\<close>

definition zfill :: "nat \<Rightarrow> string \<Rightarrow> string" where
  "zfill w s = replicate (w - length s) CHR ''0'' @ s"

definition fmt_03d :: "int \<Rightarrow> string" where
  "fmt_03d n = (if n < 0 then CHR ''-'' # zfill 2 (str_nat (nat (- n))) else zfill 3 (str_nat (nat n)))"

definition fmt_02d :: "int \<Rightarrow> string" where
  "fmt_02d n = (if n < 0 then CHR ''-'' # zfill 1 (str_nat (nat (- n))) else zfill 2 (str_nat (nat n)))"

text \<open>\<open>s.split(sep)\<close> for a one-character separator; empty pieces are kept.\<close>

fun py_split :: "char \<Rightarrow> string \<Rightarrow> string list" where
  "py_split sep [] = [[]]"
| "py_split sep (c # cs) =
     (if c = sep then [] # py_split sep cs
      else (case py_split sep cs of p # ps \<Rightarrow> (c # p) # ps | [] \<Rightarrow> [[c]]))"

text \<open>The characters \<open>re.sub(r"[^0-9A-F]", "", raw)\<close> keeps.\<close>

definition is_upper_hex :: "char \<Rightarrow> bool" where
  "is_upper_hex c = (c \<in> set ''0123456789ABCDEF'')"

text \<open>
  The list comprehension \<open>[f"{int(p, 16):03d}" for p in parts]\<close> stops at the first
  part that does not parse.
\<close>

fun int_all :: "string list \<Rightarrow> py_error + int list" where
  "int_all [] = Inr []"
| "int_all (p # ps) =
     (case py_int16 p of
        Inl e \<Rightarrow> Inl e
      | Inr n \<Rightarrow> (case int_all ps of Inl e \<Rightarrow> Inl e | Inr ns \<Rightarrow> Inr (n # ns)))"

text \<open>
  With a colon in the UID the parts are the non-empty pieces between colons, the last
  four of them reversed; without one they are the last four character pairs of the
  hexadecimal characters, reversed. A \<open>ValueError\<close> gives the empty string.
\<close>

definition uid_to_espuino_tag_id :: "string \<Rightarrow> string" where
  "uid_to_espuino_tag_id uid =
     (if uid = [] then []
      else
        let raw = py_upper uid;
            parts =
              (if CHR '':'' \<in> set raw
               then (let parts = filter (\<lambda>p. p \<noteq> []) (py_split CHR '':'' raw)
                     in if 4 \<le> length parts then Some (rev (py_last_n 4 parts)) else None)
               else (let hex_only = filter is_upper_hex raw;
                         n = length hex_only
                     in if n < 8 then None
                        else Some (rev (map (\<lambda>i. take 2 (drop i hex_only))
                                            [n - 8, n - 6, n - 4, n - 2]))))
        in case parts of
             None \<Rightarrow> []
           | Some ps \<Rightarrow> (case int_all ps of Inl e \<Rightarrow> [] | Inr ns \<Rightarrow> concat (map fmt_03d ns)))"

text \<open>
  \<open>check_espuino_active_tag\<close>. After its two guards the function opens the request with
  \<open>aiohttp.ClientSession()\<close>, and \<open>main.py\<close> never imports \<open>aiohttp\<close>: looking the name
  up raises \<open>NameError\<close> inside the \<open>try\<close>. The handler \<open>except asyncio.TimeoutError\<close>
  does not match it, and matching it against the next one, \<open>except aiohttp.ClientError\<close>,
  looks the same name up and raises \<open>NameError\<close> again, which leaves the function
  before \<open>except Exception\<close> is tried. So no request is sent, the rest of the \<open>try\<close>
  block (reading \<open>current.rfidTagId\<close> from the reply and comparing it with the expected
  tag id) is never reached, and the function returns only from its guards.
\<close>

definition check_espuino_active_tag :: "string \<Rightarrow> string \<Rightarrow> py_error + bool option" where
  "check_espuino_active_tag ip expected_uid =
     (if ip = [] \<or> expected_uid = [] then Inr None
      else
        let expected_tag_id = uid_to_espuino_tag_id expected_uid in
        if expected_tag_id = [] then Inr None
        else Inl NameError)"

text \<open>
  A well-formed UID: bytes written as two upper-case hexadecimal characters each,
  joined by colons or not at all. \<open>dec3\<close> is a byte in three decimal digits.
\<close>

definition hex_char :: "nat \<Rightarrow> char" where
  "hex_char d = ''0123456789ABCDEF'' ! (d mod 16)"

definition hex_byte :: "nat \<Rightarrow> string" where
  "hex_byte b = [hex_char (b div 16), hex_char b]"

fun colon_join :: "string list \<Rightarrow> string" where
  "colon_join [] = []"
| "colon_join [p] = p"
| "colon_join (p # q # ps) = p @ CHR '':'' # colon_join (q # ps)"

definition dec3 :: "nat \<Rightarrow> string" where
  "dec3 b = [digit_char (b div 100), digit_char (b div 10), digit_char b]"

section \<open>Pseudo-tracks: \<open>play_tonie_for_reader\<close> in \<open>main.py\<close>\<close>

text \<open>\<open>tonie.get("tracks", [])\<close> and \<open>tonie.get("duration", 0)\<close>.\<close>

definition get_tracks :: "tonie \<Rightarrow> track list" where
  "get_tracks tonie = (case t_tracks tonie of None \<Rightarrow> [] | Some ts \<Rightarrow> ts)"

definition get_duration :: "tonie \<Rightarrow> int" where
  "get_duration tonie = (case t_duration tonie of None \<Rightarrow> 0 | Some d \<Rightarrow> d)"

text \<open>
  The track list \<open>play_tonie_for_reader\<close> hands to the encoders for a tag that was
  found: the tag's own tracks, or one pseudo-track
  \<open>{"name": "Full Audio", "duration": full_duration, "start": 0}\<close> with
  \<open>full_duration = duration if duration > 0 else 7200\<close>.
\<close>

definition tonie_tracks :: "tonie \<Rightarrow> track list" where
  "tonie_tracks tonie =
     (let tracks = get_tracks tonie;
          duration = get_duration tonie
      in if tracks = []
         then (let full_duration = (if duration > 0 then duration else 7200)
               in [\<lparr>tr_name = Some ''Full Audio'', tr_start = Some 0,
                     tr_duration = Some full_duration\<rparr>])
         else tracks)"

text \<open>A tag-index entry whose \<open>trackSeconds\<close> holds the total length only.\<close>

definition long_tag :: tag_entry where
  "long_tag = \<lparr>tag_uid = ''E0:04:03:50:13:16:80:4B'', tag_source = [], tag_valid = True,
     tag_exists = True, tag_audioUrl = ''/content/download/E00403501316804B'',
     trackSeconds = [9000], tonieInfo = None\<rparr>"

section \<open>Cache store: \<open>cleanup_cache\<close> and \<open>ensure_cache_space\<close> in \<open>services/transcoding.py\<close>\<close>

















section \<open>Encoding coordinator: \<open>services/transcoding.py\<close>\<close>

text \<open>The dataclasses \<open>TrackInfo\<close> and \<open>TonieMetadata\<close>.\<close>

record track_info =
  info_index :: nat
  info_name :: string
  info_start_seconds :: int
  info_duration_seconds :: int
  info_filename :: string

record tonie_metadata =
  md_title :: string
  md_artist :: string
  md_album :: string
  md_year :: string
  md_tracks :: "track_info list"
  md_source_url :: string
  md_total_duration :: int

text \<open>
  A fingerprint directory: its track files with their sizes, and the content of
  \<open>metadata.json\<close> when that file exists.
\<close>

record cache_dir =
  dir_files :: "string \<rightharpoonup> nat"
  dir_metadata :: "tonie_metadata option"

text \<open>\<open>path.exists() and path.stat().st_size > 0\<close>\<close>

definition nonempty_file :: "(string \<rightharpoonup> nat) \<Rightarrow> string \<Rightarrow> bool" where
  "nonempty_file fs f = (case fs f of None \<Rightarrow> False | Some sz \<Rightarrow> 0 < sz)"

text \<open>\<open>track.get("duration", 0)\<close>\<close>

definition track_duration :: "track \<Rightarrow> int" where
  "track_duration track = (case tr_duration track of None \<Rightarrow> 0 | Some d \<Rightarrow> d)"

text \<open>
  The \<open>TrackInfo\<close> both loops build for the track at position \<open>i\<close> of the input:
  name \<open>track.get("name", f"Track {i + 1}")\<close>, file name \<open>f"{i + 1:02d}.mp3"\<close>.
\<close>

definition track_info_of :: "nat \<Rightarrow> track \<Rightarrow> track_info" where
  "track_info_of i track =
     \<lparr>info_index = i,
      info_name = (case tr_name track of None \<Rightarrow> ''Track '' @ str_nat (i + 1) | Some n \<Rightarrow> n),
      info_start_seconds = (case tr_start track of None \<Rightarrow> 0 | Some s \<Rightarrow> s),
      info_duration_seconds = track_duration track,
      info_filename = fmt_02d (int (i + 1)) @ ''.mp3''\<rparr>"

text \<open>
  The entry \<open>continue_encoding_remaining_tracks\<close> writes for the first track, with its
  literal name and file name.
\<close>

definition first_track_info :: "track \<Rightarrow> track_info" where
  "first_track_info first_track =
     \<lparr>info_index = 0,
      info_name = (case tr_name first_track of None \<Rightarrow> ''Track 1'' | Some n \<Rightarrow> n),
      info_start_seconds = (case tr_start first_track of None \<Rightarrow> 0 | Some s \<Rightarrow> s),
      info_duration_seconds = track_duration first_track,
      info_filename = ''01.mp3''\<rparr>"

definition album_of :: "string \<Rightarrow> string \<Rightarrow> string" where
  "album_of series episode =
     (if series \<noteq> [] \<and> episode \<noteq> [] then series @ '' - '' @ episode
      else if episode \<noteq> [] then episode
      else if series \<noteq> [] then series
      else ''Unknown'')"

definition artist_of :: "string \<Rightarrow> string" where
  "artist_of series = (if series \<noteq> [] then series else ''Tonie'')"

text \<open>
  The transcoder is outside the program. \<open>enc i\<close> is what \<open>encode_track_to_mp3\<close> does
  for the track at position \<open>i\<close>: \<open>None\<close> when it returns \<open>False\<close> (non-zero exit,
  timeout, exception), \<open>Some sz\<close> when it moved a file of size \<open>sz\<close> to the output
  path and returned \<open>True\<close>.

  The loop of \<open>encode_tonie_tracks\<close>, \<open>for i, track in enumerate(tracks)\<close>: a track
  with \<open>duration <= 0\<close> is skipped, a failed track ends the run without metadata.
\<close>

fun encode_all_loop :: "(nat \<Rightarrow> nat option) \<Rightarrow> nat \<Rightarrow> track list \<Rightarrow> (string \<rightharpoonup> nat)
    \<Rightarrow> track_info list \<Rightarrow> (string \<rightharpoonup> nat) \<times> track_info list option" where
  "encode_all_loop enc i [] fs track_infos = (fs, Some track_infos)"
| "encode_all_loop enc i (track # rest) fs track_infos =
     (if track_duration track \<le> 0 then encode_all_loop enc (i + 1) rest fs track_infos
      else (case enc i of
              None \<Rightarrow> (fs, None)
            | Some sz \<Rightarrow>
                encode_all_loop enc (i + 1) rest
                  (fs(info_filename (track_info_of i track) \<mapsto> sz))
                  (track_infos @ [track_info_of i track])))"

text \<open>
  \<open>encode_tonie_tracks\<close> on the fingerprint directory as \<open>ensure_cache_space\<close> left it.
  Existing metadata is returned as it is; otherwise all tracks are encoded and the
  metadata is written at the end.
\<close>

definition encode_tonie_tracks :: "(nat \<Rightarrow> nat option) \<Rightarrow> string \<Rightarrow> track list \<Rightarrow> string
    \<Rightarrow> string \<Rightarrow> string \<Rightarrow> cache_dir \<Rightarrow> cache_dir \<times> tonie_metadata option" where
  "encode_tonie_tracks enc source_url tracks series episode year dir =
     (if tracks = [] then (dir, None)
      else (case dir_metadata dir of
              Some data \<Rightarrow> (dir, Some data)
            | None \<Rightarrow>
                (let total_duration = sum_list (map track_duration tracks);
                     album = album_of series episode;
                     artist = artist_of series;
                     r = encode_all_loop enc 0 tracks (dir_files dir) []
                 in case snd r of
                      None \<Rightarrow> (dir\<lparr>dir_files := fst r\<rparr>, None)
                    | Some track_infos \<Rightarrow>
                        (let metadata = \<lparr>md_title = album, md_artist = artist,
                               md_album = album, md_year = year, md_tracks = track_infos,
                               md_source_url = source_url,
                               md_total_duration = total_duration\<rparr>
                         in (dir\<lparr>dir_files := fst r, dir_metadata := Some metadata\<rparr>,
                             Some metadata)))))"

text \<open>
  The loop of \<open>continue_encoding_remaining_tracks\<close>, \<open>for i in range(1, len(tracks))\<close>.
  A track file that is already there and not empty is kept, unless a cover was fetched
  (\<open>cover\<close>) and the file has none embedded (\<open>embedded\<close> is \<open>has_embedded_cover\<close>).
\<close>

fun remaining_loop :: "(nat \<Rightarrow> nat option) \<Rightarrow> bool \<Rightarrow> (string \<Rightarrow> bool) \<Rightarrow> nat \<Rightarrow> track list
    \<Rightarrow> (string \<rightharpoonup> nat) \<Rightarrow> track_info list \<Rightarrow> (string \<rightharpoonup> nat) \<times> track_info list option" where
  "remaining_loop enc cover embedded i [] fs track_infos = (fs, Some track_infos)"
| "remaining_loop enc cover embedded i (track # rest) fs track_infos =
     (if track_duration track \<le> 0
      then remaining_loop enc cover embedded (i + 1) rest fs track_infos
      else if nonempty_file fs (info_filename (track_info_of i track))
              \<and> \<not> (cover \<and> \<not> embedded (info_filename (track_info_of i track)))
      then remaining_loop enc cover embedded (i + 1) rest fs
             (track_infos @ [track_info_of i track])
      else (case enc i of
              None \<Rightarrow> (fs, None)
            | Some sz \<Rightarrow>
                remaining_loop enc cover embedded (i + 1) rest
                  (fs(info_filename (track_info_of i track) \<mapsto> sz))
                  (track_infos @ [track_info_of i track])))"

text \<open>
  \<open>continue_encoding_remaining_tracks\<close>. With at most one track it writes the metadata
  at once (\<open>tracks[0]\<close> raises on an empty list); otherwise the first track is entered
  as already encoded and the loop runs over the others.
\<close>

definition continue_encoding_remaining_tracks :: "(nat \<Rightarrow> nat option) \<Rightarrow> bool \<Rightarrow> (string \<Rightarrow> bool)
    \<Rightarrow> string \<Rightarrow> track list \<Rightarrow> string \<Rightarrow> string \<Rightarrow> string \<Rightarrow> cache_dir
    \<Rightarrow> py_error + cache_dir \<times> tonie_metadata option" where
  "continue_encoding_remaining_tracks enc cover embedded source_url tracks series episode
       year dir =
     (case tracks of
        [] \<Rightarrow> Inl IndexError
      | [first_track] \<Rightarrow>
          (let album = album_of series episode;
               metadata = \<lparr>md_title = album, md_artist = artist_of series, md_album = album,
                  md_year = year, md_tracks = [first_track_info first_track],
                  md_source_url = source_url,
                  md_total_duration = track_duration first_track\<rparr>
           in Inr (dir\<lparr>dir_metadata := Some metadata\<rparr>, Some metadata))
      | first_track # rest \<Rightarrow>
          (let album = album_of series episode;
               total_duration = sum_list (map track_duration tracks);
               r = remaining_loop enc cover embedded 1 rest (dir_files dir)
                     [first_track_info first_track]
           in case snd r of
                None \<Rightarrow> Inr (dir\<lparr>dir_files := fst r\<rparr>, None)
              | Some track_infos \<Rightarrow>
                  (let metadata = \<lparr>md_title = album, md_artist = artist_of series,
                         md_album = album, md_year = year, md_tracks = track_infos,
                         md_source_url = source_url,
                         md_total_duration = total_duration\<rparr>
                   in Inr (dir\<lparr>dir_files := fst r, dir_metadata := Some metadata\<rparr>,
                           Some metadata))))"

text \<open>
  The loop of \<open>get_concatenated_mp3_path\<close> that collects the track files of a cached
  album for the single-file stream: \<open>for i, track in enumerate(metadata.tracks)\<close> it
  takes the file of position \<open>i\<close>, \<open>get_track_cache_path(source_url, i)\<close>, and gives
  up when that file is missing.
\<close>

fun collect_track_files :: "(string \<rightharpoonup> nat) \<Rightarrow> nat \<Rightarrow> track_info list \<Rightarrow> string list option" where
  "collect_track_files fs i [] = Some []"
| "collect_track_files fs i (t # ts) =
     (let track_path = fmt_02d (int (i + 1)) @ ''.mp3''
      in if fs track_path = None then None
         else map_option ((#) track_path) (collect_track_files fs (i + 1) ts))"

definition concat_track_files :: "cache_dir \<Rightarrow> string list option" where
  "concat_track_files dir =
     (case dir_metadata dir of
        None \<Rightarrow> None
      | Some metadata \<Rightarrow> collect_track_files (dir_files dir) 0 (md_tracks metadata))"

text \<open>
  What can be said of an entry of the written metadata: its index is a position of the
  input track list, the entry is the one built from the track at that position (so its
  file name is the index plus one in two digits), and the file is there and not empty.
\<close>

definition entry_ok :: "track list \<Rightarrow> (string \<rightharpoonup> nat) \<Rightarrow> track_info \<Rightarrow> bool" where
  "entry_ok tracks fs t =
     (info_index t < length tracks
      \<and> t = track_info_of (info_index t) (tracks ! info_index t)
      \<and> nonempty_file fs (info_filename t))"

text \<open>A transcoder whose successful runs leave a non-empty file.\<close>

definition enc_nonempty :: "(nat \<Rightarrow> nat option) \<Rightarrow> bool" where
  "enc_nonempty enc = (\<forall>i sz. enc i = Some sz \<longrightarrow> 0 < sz)"

text \<open>
  A tag-index entry whose \<open>trackSeconds\<close> repeats a boundary, and the three tracks
  \<open>find_tonie_by_uid\<close> cuts from it, the second of length zero; a transcoder that
  always succeeds.
\<close>

definition gap_tag :: tag_entry where
  "gap_tag = long_tag\<lparr>trackSeconds := [0, 10, 10, 30]\<rparr>"

definition gap_tracks :: "track list" where
  "gap_tracks =
     [\<lparr>tr_name = Some ''Track 1'', tr_start = Some 0, tr_duration = Some 10\<rparr>,
      \<lparr>tr_name = Some ''Track 2'', tr_start = Some 10, tr_duration = Some 0\<rparr>,
      \<lparr>tr_name = Some ''Track 3'', tr_start = Some 10, tr_duration = Some 20\<rparr>]"

definition enc_always :: "nat \<Rightarrow> nat option" where
  "enc_always i = Some 1000"

definition empty_dir :: cache_dir where
  "empty_dir = \<lparr>dir_files = Map.empty, dir_metadata = None\<rparr>"

text \<open>The same album without the empty track, and the directory after the first track.\<close>

definition plain_tracks :: "track list" where
  "plain_tracks =
     [\<lparr>tr_name = Some ''Intro'', tr_start = Some 0, tr_duration = Some 10\<rparr>,
      \<lparr>tr_name = Some ''Story'', tr_start = Some 10, tr_duration = Some 20\<rparr>]"

definition first_done_dir :: cache_dir where
  "first_done_dir = \<lparr>dir_files = [''01.mp3'' \<mapsto> 1000], dir_metadata = None\<rparr>"

definition gap_album :: "cache_dir \<times> tonie_metadata option" where
  "gap_album =
     encode_tonie_tracks enc_always ''http://tc/content/E00403501316804B'' gap_tracks
       ''Series'' ''Episode'' [] empty_dir"

definition gap_album_progressive :: "py_error + cache_dir \<times> tonie_metadata option" where
  "gap_album_progressive =
     continue_encoding_remaining_tracks enc_always False (\<lambda>f. False)
       ''http://tc/content/E00403501316804B'' gap_tracks ''Series'' ''Episode'' []
       first_done_dir"

definition plain_album :: "cache_dir \<times> tonie_metadata option" where
  "plain_album =
     encode_tonie_tracks enc_always ''http://tc/content/E00403501316804B'' plain_tracks
       ''Series'' ''Episode'' [] empty_dir"

section \<open>Playlist: \<open>get_playlist_m3u\<close> in \<open>main.py\<close>\<close>

text \<open>
  \<open>metadata.json\<close> is read back as JSON. A track there is an object, a list of keys
  with values; the values that occur are integers and strings.
\<close>

datatype jval = JInt int | JStr string

type_synonym jobject = "(string \<times> jval) list"

text \<open>\<open>TrackInfo.to_dict\<close>, that is \<open>asdict\<close>: one key for each field, under the field's name.\<close>

definition to_dict :: "track_info \<Rightarrow> jobject" where
  "to_dict t =
     [(''index'', JInt (int (info_index t))),
      (''name'', JStr (info_name t)),
      (''start_seconds'', JInt (info_start_seconds t)),
      (''duration_seconds'', JInt (info_duration_seconds t)),
      (''filename'', JStr (info_filename t))]"

text \<open>\<open>d.get(key, default)\<close> and the text an f-string puts for a value.\<close>

definition jget :: "jobject \<Rightarrow> string \<Rightarrow> jval \<Rightarrow> jval" where
  "jget d key dflt = (case map_of d key of None \<Rightarrow> dflt | Some v \<Rightarrow> v)"

fun py_str :: "jval \<Rightarrow> string" where
  "py_str (JInt i) = str_int i"
| "py_str (JStr s) = s"

text \<open>
  How a request handler fails: with an \<open>HTTPException\<close> of its own and the status it
  names, or with an exception nobody catches, which the framework answers with
  status 500.
\<close>

datatype http_error = HTTPException nat | Unhandled py_error

definition newline :: string where
  "newline = [CHR 0x0A]"

text \<open>\<open>"\n".join(lines)\<close>\<close>

fun join_lines :: "string list \<Rightarrow> string" where
  "join_lines [] = []"
| "join_lines [l] = l"
| "join_lines (l # m # ls) = l @ newline @ join_lines (m # ls)"

text \<open>\<open>s.rstrip("/")\<close>\<close>

definition rstrip_slash :: "string \<Rightarrow> string" where
  "rstrip_slash s = rev (dropWhile (\<lambda>c. c = CHR ''/'') (rev s))"

text \<open>
  The loop over the tracks. \<open>track.get("index", 0) + 1\<close> raises \<open>TypeError\<close> on a
  value that is not a number.
\<close>

fun m3u_track_lines :: "string \<Rightarrow> string \<Rightarrow> jobject list \<Rightarrow> http_error + string list" where
  "m3u_track_lines server_base cache_key [] = Inr []"
| "m3u_track_lines server_base cache_key (track # rest) =
     (case jget track ''index'' (JInt 0) of
        JStr s \<Rightarrow> Inl (Unhandled TypeError)
      | JInt i \<Rightarrow>
          (let track_num = i + 1;
               track_name = jget track ''name'' (JStr (''Track '' @ str_int track_num));
               duration = jget track ''duration'' (JInt (- 1))
           in case m3u_track_lines server_base cache_key rest of
                Inl e \<Rightarrow> Inl e
              | Inr ls \<Rightarrow>
                  Inr ((''#EXTINF:'' @ py_str duration @ '','' @ py_str track_name)
                       # (server_base @ ''/tracks/'' @ cache_key @ ''/'' @ fmt_02d track_num
                            @ ''.mp3'')
                       # ls)))"

text \<open>
  The text \<open>m3u_content\<close> that the handler has built when it reaches its last
  statement: the header line, the lines of the tracks, a newline after each.
\<close>

definition m3u_content :: "string \<Rightarrow> string \<Rightarrow> jobject list \<Rightarrow> http_error + string" where
  "m3u_content server_base cache_key tracks =
     (case m3u_track_lines server_base cache_key tracks of
        Inl e \<Rightarrow> Inl e
      | Inr ls \<Rightarrow> Inr (join_lines (''#EXTM3U'' # ls) @ newline))"

text \<open>
  \<open>get_playlist_m3u\<close>. The last argument is \<open>None\<close> when \<open>metadata.json\<close> does not
  exist, else the list under its key \<open>tracks\<close>. The last statement is
  \<open>return Response(content=m3u_content, ...)\<close>, and \<open>main.py\<close> imports \<open>Request\<close>,
  \<open>FileResponse\<close> and \<open>StreamingResponse\<close> but never \<open>Response\<close>: looking the name up
  raises \<open>NameError\<close>, outside every \<open>try\<close>. So the handler never returns a body; a
  request that passes the two checks for status 404 ends in an exception nobody catches.
\<close>

definition get_playlist_m3u :: "string \<Rightarrow> string \<Rightarrow> jobject list option \<Rightarrow> http_error + string" where
  "get_playlist_m3u cache_key base_url metadata =
     (case metadata of
        None \<Rightarrow> Inl (HTTPException 404)
      | Some tracks \<Rightarrow>
          if tracks = [] then Inl (HTTPException 404)
          else (case m3u_content (rstrip_slash base_url) cache_key tracks of
                  Inl e \<Rightarrow> Inl e
                | Inr content \<Rightarrow> Inl (Unhandled NameError)))"

section \<open>SD mirror: the retry loop of \<open>upload_to_espuino\<close> in \<open>services/devices.py\<close>\<close>

text \<open>
  What one attempt to POST the file can end in: status 200, another status with the
  reply's text, a timeout, a cancellation of the task by the watchdog (the user's
  cancel flag, or no progress for 10 seconds), or another exception with its message.
\<close>

datatype attempt_outcome =
    Http200
  | HttpStatus nat string
  | TimedOut
  | CancelledByUser
  | Stalled
  | OtherError string

datatype upload_result = UploadOk | UploadError "string option"

text \<open>
  What the caller and the device see of an upload: the result, the delays slept
  before retries in order, and the number of POST attempts made.
\<close>

record upload_trace =
  up_result :: upload_result
  up_delays :: "nat list"
  up_attempts :: nat

text \<open>
  The loop \<open>for attempt in range(max_retries)\<close>; the second argument counts the
  attempts that are left. \<open>cancel k\<close> is \<open>_should_cancel_upload(ip)\<close> at the start of
  attempt \<open>k\<close>, \<open>outcome k\<close> is how the POST of attempt \<open>k\<close> ends. Before every attempt but
  the first the loop sleeps \<open>5 * (2 ** (attempt - 1))\<close> seconds.
\<close>

fun retry_loop :: "(nat \<Rightarrow> bool) \<Rightarrow> (nat \<Rightarrow> attempt_outcome) \<Rightarrow> nat \<Rightarrow> nat \<Rightarrow> string option
    \<Rightarrow> nat list \<Rightarrow> upload_trace" where
  "retry_loop cancel outcome attempt 0 last_error delays =
     \<lparr>up_result = UploadError last_error, up_delays = delays, up_attempts = attempt\<rparr>"
| "retry_loop cancel outcome attempt (Suc left) last_error delays =
     (if cancel attempt
      then \<lparr>up_result = UploadError (Some ''Cancelled by user''), up_delays = delays,
            up_attempts = attempt\<rparr>
      else
        (let delays' = (if attempt > 0 then delays @ [5 * 2 ^ (attempt - 1)] else delays)
         in case outcome attempt of
              Http200 \<Rightarrow>
                \<lparr>up_result = UploadOk, up_delays = delays', up_attempts = attempt + 1\<rparr>
            | HttpStatus status text \<Rightarrow>
                retry_loop cancel outcome (attempt + 1) left
                  (Some (''HTTP '' @ str_nat status @ '': '' @ text)) delays'
            | TimedOut \<Rightarrow>
                retry_loop cancel outcome (attempt + 1) left (Some ''Timeout'') delays'
            | CancelledByUser \<Rightarrow>
                \<lparr>up_result = UploadError (Some ''Cancelled by user''), up_delays = delays',
                 up_attempts = attempt + 1\<rparr>
            | Stalled \<Rightarrow>
                \<lparr>up_result = UploadError (Some ''Stalled: no progress for 10s''),
                 up_delays = delays', up_attempts = attempt + 1\<rparr>
            | OtherError msg \<Rightarrow>
                retry_loop cancel outcome (attempt + 1) left (Some msg) delays'))"

text \<open>
  \<open>upload_to_espuino\<close> as far as retrying goes: a missing file and a cancel flag set
  before the start end it at once; \<open>max_retries\<close> is 3 unless the caller says otherwise,
  and no caller does.
\<close>

definition upload_to_espuino :: "bool \<Rightarrow> bool \<Rightarrow> (nat \<Rightarrow> bool) \<Rightarrow> (nat \<Rightarrow> attempt_outcome) \<Rightarrow> nat
    \<Rightarrow> upload_trace" where
  "upload_to_espuino file_exists cancelled_before cancel outcome max_retries =
     (if \<not> file_exists
      then \<lparr>up_result = UploadError (Some ''File not found''), up_delays = [], up_attempts = 0\<rparr>
      else if cancelled_before
      then \<lparr>up_result = UploadError (Some ''Cancelled by user''), up_delays = [],
            up_attempts = 0\<rparr>
      else retry_loop cancel outcome 0 max_retries None [])"

definition default_max_retries :: nat where
  "default_max_retries = 3"

section \<open>Reader state machine: \<open>main.py\<close>\<close>

subsection \<open>State\<close>

text \<open>
  A playback device is a dict with the keys \<open>type\<close> and \<open>id\<close>. Positions and
  timestamps are the program's floats, taken as real numbers.
\<close>

record device =
  dev_type :: string
  dev_id :: string

text \<open>
  The dict under \<open>current_tag\<close>. \<open>ct_duration\<close> is \<open>None\<close> when the key is not
  there (a library item), \<open>Some None\<close> when it holds \<open>None\<close>.
\<close>

record tag_snapshot =
  ct_uid :: string
  ct_series :: "string option"
  ct_episode :: "string option"
  ct_title :: "string option"
  ct_picture :: "string option"
  ct_audio_url :: string
  ct_playback_url :: string
  ct_placed_at :: string
  ct_start_position :: real
  ct_duration :: "int option option"
  ct_tracks :: "track list"
  ct_track_count :: nat

record resume_point =
  res_uid :: string
  res_position :: real
  res_device :: device
  res_paused :: bool

text \<open>
  The state dict of one reader. The last three keys are written by \<open>handle_tonie\<close>
  only, so they can be absent.
\<close>

record reader_state =
  current_tag :: "tag_snapshot option"
  current_started_at :: "real option"
  current_offset :: real
  resume :: "resume_point option"
  last_reported_position :: real
  current_device :: "device option"
  mode :: "string option"
  target_device :: "device option"
  espuino_ip :: "string option"

record reader_info =
  first_seen :: string
  last_seen :: string
  scan_count :: nat
  reader_name :: string

record scan_record =
  scan_time :: string
  scan_uid :: string
  scan_reader_ip :: string
  scan_found :: bool
  scan_title :: string

text \<open>The calls made on the device adapter that change what a device does.\<close>

datatype device_call =
    PauseDevice device
  | StopDevice device
  | ResumeDevice device
  | SeekDevice device real
  | StartPlayback device string

text \<open>
  The module's dictionaries \<open>reader_states\<close> and \<open>connected_readers\<close>, the deque
  \<open>recent_scans\<close>, and the adapter calls made so far, oldest first. The persistent
  reader cache that \<open>update_reader_cache\<close> writes is not part of the model.
\<close>

record world =
  reader_states :: "string \<rightharpoonup> reader_state"
  connected_readers :: "string \<rightharpoonup> reader_info"
  recent_scans :: "scan_record list"
  device_calls :: "device_call list"

text \<open>
  What the part of \<open>play_tonie_for_reader\<close> that encodes and starts playback comes
  to, for the response and the device. That part (the branches on the device type
  after the reader state is written) does not write the reader state; its outcome is
  taken from the environment.
\<close>

record drive_outcome =
  dr_calls :: "device_call list"
  dr_started :: bool
  dr_encoding :: bool

text \<open>
  Everything a request handler asks of the outside during one request: the clock, the
  device service, the upstream index, the URL builders and the cache.
\<close>

record env =
  now :: real
  now_iso :: string
  device_for_reader :: "string \<Rightarrow> device"
  reader_device_override :: "string \<Rightarrow> device option"
  cached_reader_name :: "string \<Rightarrow> string option"
  device_position :: "device \<Rightarrow> real option"
  pause_result :: "device \<Rightarrow> bool"
  stop_result :: "device \<Rightarrow> bool"
  resume_result :: "device \<Rightarrow> bool"
  seek_result :: "device \<Rightarrow> real \<Rightarrow> bool"
  is_device_playing :: "device \<Rightarrow> bool"
  client_initialized :: bool
  tag_index :: "tag_entry list"
  catalog :: "tonie list"
  build_audio_url :: "tonie option \<Rightarrow> string \<Rightarrow> string"
  build_playback_url :: "string \<Rightarrow> string \<Rightarrow> string"
  build_playlist_url :: "string \<Rightarrow> string option"
  cached_track_count :: "string \<Rightarrow> nat option"
  drive :: "string \<Rightarrow> string \<Rightarrow> drive_outcome"

subsection \<open>Requests and responses\<close>

record tonie_request =
  req_uid :: "string option"
  req_mode :: string
  req_target_device :: "device option"
  req_espuino_ip :: "string option"
  req_title :: "string option"
  req_series :: "string option"
  req_episode :: "string option"
  req_picture :: "string option"
  req_tracks :: "track list option"
  req_audio_url :: "string option"

text \<open>The dict \<open>metadata_override\<close> that \<open>handle_tonie\<close> builds from the request.\<close>

record overrides =
  ov_title :: "string option"
  ov_series :: "string option"
  ov_episode :: "string option"
  ov_picture :: "string option"
  ov_tracks :: "track list option"
  ov_audio_url :: "string option"

record tonie_response =
  resp_uid :: string
  resp_series :: "string option"
  resp_episode :: "string option"
  resp_title :: "string option"
  resp_picture :: "string option"
  resp_found :: bool
  resp_playback_started :: bool
  resp_encoding :: bool
  resp_playback_url :: "string option"
  resp_playlist_url :: "string option"
  resp_track_count :: nat
  resp_target :: "string option"

text \<open>\<open>TonieResponse(uid=..., found=...)\<close>: every other field at its default.\<close>

definition default_response :: "string \<Rightarrow> bool \<Rightarrow> tonie_response" where
  "default_response uid found =
     \<lparr>resp_uid = uid, resp_series = None, resp_episode = None, resp_title = None,
      resp_picture = None, resp_found = found, resp_playback_started = False,
      resp_encoding = False, resp_playback_url = None, resp_playlist_url = None,
      resp_track_count = 1, resp_target = None\<rparr>"

text \<open>\<open>a or b\<close> on optional strings: \<open>None\<close> and the empty string are falsy.\<close>

definition or_else :: "string option \<Rightarrow> string option \<Rightarrow> string option" where
  "or_else a b = (case a of None \<Rightarrow> b | Some s \<Rightarrow> if s = [] then b else a)"

definition py_lower_char :: "char \<Rightarrow> char" where
  "py_lower_char c =
     (case List.find (\<lambda>p. fst p = c)
             (zip ''ABCDEFGHIJKLMNOPQRSTUVWXYZ'' ''abcdefghijklmnopqrstuvwxyz'') of
        Some p \<Rightarrow> snd p
      | None \<Rightarrow> c)"

definition py_lower :: "string \<Rightarrow> string" where
  "py_lower s = map py_lower_char s"

subsection \<open>Operations\<close>

definition initial_state :: reader_state where
  "initial_state =
     \<lparr>current_tag = None, current_started_at = None, current_offset = 0, resume = None,
      last_reported_position = 0, current_device = None, mode = None,
      target_device = None, espuino_ip = None\<rparr>"

text \<open>\<open>get_reader_state\<close> enters a fresh state for a reader it has not seen.\<close>

definition get_reader_state :: "string \<Rightarrow> world \<Rightarrow> reader_state \<times> world" where
  "get_reader_state reader_ip w =
     (case reader_states w reader_ip of
        Some state \<Rightarrow> (state, w)
      | None \<Rightarrow> (initial_state,
                 w\<lparr>reader_states := (reader_states w)(reader_ip \<mapsto> initial_state)\<rparr>))"

text \<open>Writing through the dict that \<open>get_reader_state\<close> returned.\<close>

definition put_reader_state :: "string \<Rightarrow> reader_state \<Rightarrow> world \<Rightarrow> world" where
  "put_reader_state reader_ip state w =
     w\<lparr>reader_states := (reader_states w)(reader_ip \<mapsto> state)\<rparr>"

definition add_calls :: "device_call list \<Rightarrow> world \<Rightarrow> world" where
  "add_calls cs w = w\<lparr>device_calls := device_calls w @ cs\<rparr>"

definition is_virtual_reader :: "string \<Rightarrow> bool" where
  "is_virtual_reader reader_ip =
     (reader_ip = ''manual-stream'' \<or> reader_ip = ''browser-session''
      \<or> prefix ''web-'' reader_ip)"

text \<open>\<open>state.get("current_device") or device_service.get_device_for_reader(reader_ip)\<close>\<close>

definition playing_device :: "env \<Rightarrow> string \<Rightarrow> reader_state \<Rightarrow> device" where
  "playing_device e reader_ip state =
     (case current_device state of Some d \<Rightarrow> d | None \<Rightarrow> device_for_reader e reader_ip)"

definition get_resume_position :: "env \<Rightarrow> reader_state \<Rightarrow> device \<Rightarrow> real" where
  "get_resume_position e state device =
     (if dev_type device = ''browser'' then max 0 (last_reported_position state)
      else
        (let fallback = (case current_started_at state of
                           Some started \<Rightarrow> max 0 (current_offset state + (now e - started))
                         | None \<Rightarrow> 0)
         in case device_position e device of
              Some position \<Rightarrow> if position > 0 then position else fallback
            | None \<Rightarrow> fallback))"

definition stop_reader_playback :: "env \<Rightarrow> string \<Rightarrow> bool \<Rightarrow> bool \<Rightarrow> world \<Rightarrow> world" where
  "stop_reader_playback e reader_ip save_resume pause_only w =
     (let (state, w1) = get_reader_state reader_ip w in
      case current_tag state of
        None \<Rightarrow> w1
      | Some current \<Rightarrow>
          (let device = playing_device e reader_ip state;
               state1 = (if save_resume
                         then state\<lparr>resume := Some
                                \<lparr>res_uid = ct_uid current,
                                 res_position = get_resume_position e state device,
                                 res_device = device,
                                 res_paused = pause_only\<rparr>\<rparr>
                         else state)
           in if pause_only
              then add_calls [PauseDevice device] (put_reader_state reader_ip state1 w1)
              else add_calls [StopDevice device]
                     (put_reader_state reader_ip
                        (state1\<lparr>current_tag := None, current_started_at := None,
                                current_offset := 0, last_reported_position := 0,
                                current_device := None\<rparr>) w1)))"

text \<open>
  The registration at the head of \<open>play_tonie_for_reader\<close>: a new reader gets a name,
  a known one a new \<open>last_seen\<close>.
\<close>

definition touch_reader :: "env \<Rightarrow> string \<Rightarrow> world \<Rightarrow> world" where
  "touch_reader e reader_ip w =
     (case connected_readers w reader_ip of
        None \<Rightarrow>
          (let name = (if reader_ip = ''manual-stream'' then ''Web Stream''
                       else if reader_ip = ''browser-session'' then ''Browser''
                       else if prefix ''web-'' reader_ip then ''Web''
                       else (case or_else (cached_reader_name e reader_ip) None of
                               Some n \<Rightarrow> n
                             | None \<Rightarrow> ''Tag Scan ('' @ reader_ip @ '')''))
           in w\<lparr>connected_readers := (connected_readers w)(reader_ip \<mapsto>
                  \<lparr>first_seen = now_iso e, last_seen = now_iso e, scan_count = 0,
                   reader_name = name\<rparr>)\<rparr>)
      | Some info \<Rightarrow>
          w\<lparr>connected_readers := (connected_readers w)(reader_ip \<mapsto>
               info\<lparr>last_seen := now_iso e\<rparr>)\<rparr>)"

text \<open>The response of the branches for a tag that is already on the reader.\<close>

definition snapshot_response :: "string \<Rightarrow> tag_snapshot \<Rightarrow> bool \<Rightarrow> tonie_response" where
  "snapshot_response uid current started =
     (default_response uid True)
       \<lparr>resp_series := ct_series current, resp_episode := ct_episode current,
        resp_title := ct_title current, resp_picture := ct_picture current,
        resp_playback_started := started,
        resp_playback_url := Some (ct_playback_url current)\<rparr>"

text \<open>
  \<open>play_tonie_for_reader\<close> from the point where the tag is new to the reader: stop what
  is playing, look the tag up, fill the response, take over a resume position, write
  the reader state, drive the device, record the scan.
\<close>

definition play_new_tag :: "env \<Rightarrow> string \<Rightarrow> string \<Rightarrow> device option \<Rightarrow> bool \<Rightarrow> overrides option
    \<Rightarrow> world \<Rightarrow> (http_error + tonie_response) \<times> world" where
  "play_new_tag e reader_ip uid device_override record_scan metadata_override w0 =
     (let w1 = (case current_tag (fst (get_reader_state reader_ip w0)) of
                  Some current \<Rightarrow> stop_reader_playback e reader_ip False False w0
                | None \<Rightarrow> snd (get_reader_state reader_ip w0))
      in if \<not> client_initialized e then (Inl (HTTPException 503), w1)
         else
           (let tonie = find_tonie_by_uid uid (tag_index e) (catalog e);
                ov = (case metadata_override of
                        Some m \<Rightarrow> m
                      | None \<Rightarrow> \<lparr>ov_title = None, ov_series = None, ov_episode = None,
                                 ov_picture = None, ov_tracks = None, ov_audio_url = None\<rparr>);
                series = or_else (ov_series ov)
                           (case tonie of Some t \<Rightarrow> t_series t | None \<Rightarrow> None);
                episode = or_else (ov_episode ov)
                            (case tonie of
                               Some t \<Rightarrow> or_else (t_episodes t) (t_episode t)
                             | None \<Rightarrow> None);
                title = or_else (ov_title ov)
                          (case tonie of Some t \<Rightarrow> t_title t | None \<Rightarrow> None);
                picture = or_else (ov_picture ov)
                            (case tonie of Some t \<Rightarrow> t_picture t | None \<Rightarrow> None);
                audio_url = build_audio_url e tonie uid;
                reader_device = (case device_override of
                                   Some d \<Rightarrow> d
                                 | None \<Rightarrow> device_for_reader e reader_ip);
                device_type = dev_type reader_device;
                playback_url = build_playback_url e audio_url device_type;
                playlist_url = (if device_type \<noteq> ''espuino''
                                then build_playlist_url e audio_url else None);
                cache_count = (case playlist_url of
                                 None \<Rightarrow> 1
                               | Some p \<Rightarrow> (case cached_track_count e audio_url of
                                             Some n \<Rightarrow> n
                                           | None \<Rightarrow> 1));
                state = fst (get_reader_state reader_ip w1);
                taken = (case resume state of
                           Some r \<Rightarrow> res_uid r = uid
                         | None \<Rightarrow> False);
                start_position = (case resume state of
                                    Some r \<Rightarrow> if res_uid r = uid then res_position r else 0
                                  | None \<Rightarrow> 0);
                state1 = (if taken then state\<lparr>resume := None\<rparr> else state);
                tracks = (case tonie of
                            Some t \<Rightarrow> tonie_tracks t
                          | None \<Rightarrow>
                              (case ov_tracks ov of
                                 Some ts \<Rightarrow>
                                   if ts \<noteq> [] then ts
                                   else [\<lparr>tr_name = Some ''Full Audio'', tr_start = Some 0,
                                          tr_duration = Some 7200\<rparr>]
                               | None \<Rightarrow> [\<lparr>tr_name = Some ''Full Audio'', tr_start = Some 0,
                                            tr_duration = Some 7200\<rparr>]));
                final_series = (case tonie of Some t \<Rightarrow> series
                                | None \<Rightarrow> or_else series (ov_series ov));
                final_title = (case tonie of
                                 Some t \<Rightarrow> title
                               | None \<Rightarrow> or_else title (or_else (ov_title ov)
                                           (or_else final_series (Some ''Unknown Tag''))));
                snapshot =
                  \<lparr>ct_uid = uid,
                   ct_series = final_series,
                   ct_episode = (case tonie of Some t \<Rightarrow> episode
                                 | None \<Rightarrow> or_else episode (ov_episode ov)),
                   ct_title = final_title,
                   ct_picture = (case tonie of
                                   Some t \<Rightarrow> t_picture t
                                 | None \<Rightarrow> or_else picture
                                     (case metadata_override of
                                        Some m \<Rightarrow> ov_picture m
                                      | None \<Rightarrow> Some [])),
                   ct_audio_url = audio_url,
                   ct_playback_url = playback_url,
                   ct_placed_at = now_iso e,
                   ct_start_position = start_position,
                   ct_duration = (case tonie of Some t \<Rightarrow> Some (t_duration t)
                                  | None \<Rightarrow> None),
                   ct_tracks = tracks,
                   ct_track_count = length tracks\<rparr>;
                state2 = state1
                  \<lparr>current_tag := Some snapshot,
                   current_started_at := Some (now e),
                   current_offset := start_position,
                   current_device := Some reader_device,
                   last_reported_position :=
                     (if device_type = ''browser'' then start_position else 0)\<rparr>;
                outcome = drive e reader_ip uid;
                response =
                  \<lparr>resp_uid = uid, resp_series = series, resp_episode = episode,
                   resp_title = title, resp_picture = picture,
                   resp_found = (tonie \<noteq> None),
                   resp_playback_started = dr_started outcome,
                   resp_encoding = (tonie \<noteq> None \<and> dr_encoding outcome),
                   resp_playback_url = Some playback_url,
                   resp_playlist_url = playlist_url,
                   resp_track_count = (case tonie of Some t \<Rightarrow> length tracks
                                       | None \<Rightarrow> cache_count),
                   resp_target = Some (dev_id reader_device)\<rparr>;
                w2 = add_calls (dr_calls outcome)
                       (put_reader_state reader_ip state2 (snd (get_reader_state reader_ip w1)));
                w3 = (if record_scan
                      then w2\<lparr>recent_scans := take 50
                             (\<lparr>scan_time = now_iso e, scan_uid = uid,
                               scan_reader_ip = reader_ip, scan_found = (tonie \<noteq> None),
                               scan_title = (case or_else title
                                                (or_else series (Some ''Unknown'')) of
                                               Some s \<Rightarrow> s | None \<Rightarrow> ''Unknown'')\<rparr>
                              # recent_scans w2)\<rparr>
                      else w2)
            in (Inr response, w3)))"

text \<open>
  \<open>play_tonie_for_reader\<close>. A scan of the tag that is already the reader's current
  tag resumes the device when the tag had been removed (a paused resume point for this
  UID), and otherwise only returns the stored snapshot.
\<close>

definition play_tonie_for_reader :: "env \<Rightarrow> string \<Rightarrow> string \<Rightarrow> device option \<Rightarrow> bool
    \<Rightarrow> overrides option \<Rightarrow> world \<Rightarrow> (http_error + tonie_response) \<times> world" where
  "play_tonie_for_reader e reader_ip uid device_override record_scan metadata_override w =
     (let w0 = touch_reader e reader_ip w;
          (state, w1) = get_reader_state reader_ip w0
      in case current_tag state of
           None \<Rightarrow> play_new_tag e reader_ip uid device_override record_scan metadata_override w0
         | Some current \<Rightarrow>
             if ct_uid current = uid
             then (case resume state of
                     None \<Rightarrow> (Inr (snapshot_response uid current False), w1)
                   | Some r \<Rightarrow>
                       if res_uid r = uid \<and> res_paused r
                       then (let device = playing_device e reader_ip state;
                                 resumed = resume_result e device;
                                 state1 = (if resumed then state\<lparr>resume := None\<rparr> else state)
                             in (Inr (snapshot_response uid current resumed),
                                 add_calls [ResumeDevice device]
                                   (put_reader_state reader_ip state1 w1)))
                       else (Inr (snapshot_response uid current False), w1))
             else play_new_tag e reader_ip uid device_override record_scan
                    metadata_override w0)"

text \<open>
  \<open>handle_tonie\<close>, the handler of \<open>POST /tonie\<close>. The second argument is the client's
  address when the connection has one. A request without UID is a tag removal.
\<close>

definition request_reader_ip :: "tonie_request \<Rightarrow> string option \<Rightarrow> string" where
  "request_reader_ip request client_host =
     (case or_else (req_espuino_ip request) None of
        Some ip \<Rightarrow> ip
      | None \<Rightarrow> (case client_host of Some h \<Rightarrow> h | None \<Rightarrow> ''unknown''))"

definition register_reader :: "env \<Rightarrow> string \<Rightarrow> world \<Rightarrow> world" where
  "register_reader e reader_ip w =
     (let info = (case connected_readers w reader_ip of
                    Some i \<Rightarrow> i
                  | None \<Rightarrow>
                      \<lparr>first_seen = now_iso e, last_seen = now_iso e, scan_count = 0,
                       reader_name =
                         (case or_else (cached_reader_name e reader_ip) None of
                            Some n \<Rightarrow> n
                          | None \<Rightarrow> if is_virtual_reader reader_ip then ''Web Interface''
                                    else ''ESPuino ('' @ reader_ip @ '')'')\<rparr>)
      in w\<lparr>connected_readers := (connected_readers w)(reader_ip \<mapsto>
             info\<lparr>last_seen := now_iso e\<rparr>)\<rparr>)"

text \<open>
  The device a scan is played on: the target named in stream mode, the reader itself
  in local mode when it is an SD player, else the device configured for the reader.
\<close>

definition request_device_override :: "env \<Rightarrow> tonie_request \<Rightarrow> string \<Rightarrow> device option" where
  "request_device_override e request reader_ip =
     (let reader_configured_device = reader_device_override e reader_ip;
          is_espuino_reader = (case reader_configured_device of
                                 None \<Rightarrow> True
                               | Some d \<Rightarrow> dev_type d = ''espuino'')
      in if req_mode request = ''stream'' \<and> req_target_device request \<noteq> None
         then req_target_device request
         else if req_mode request = ''local'' \<and> is_espuino_reader
         then Some \<lparr>dev_type = ''espuino'', dev_id = reader_ip\<rparr>
         else reader_configured_device)"

definition handle_tonie :: "env \<Rightarrow> tonie_request \<Rightarrow> string option \<Rightarrow> world
    \<Rightarrow> (http_error + tonie_response) \<times> world" where
  "handle_tonie e request client_host w =
     (let reader_ip = request_reader_ip request client_host;
          w1 = register_reader e reader_ip w
      in case req_uid request of
           None \<Rightarrow> (Inr (default_response [] False),
                     stop_reader_playback e reader_ip True True w1)
         | Some uid \<Rightarrow>
             (let w2 = w1\<lparr>connected_readers := (connected_readers w1)(reader_ip \<mapsto>
                         (the (connected_readers w1 reader_ip))
                           \<lparr>scan_count := scan_count (the (connected_readers w1 reader_ip)) + 1\<rparr>)\<rparr>;
                  device_override = request_device_override e request reader_ip;
                  ov = \<lparr>ov_title = req_title request, ov_series = req_series request,
                        ov_episode = req_episode request, ov_picture = req_picture request,
                        ov_tracks = req_tracks request, ov_audio_url = req_audio_url request\<rparr>;
                  (state, w3) = get_reader_state reader_ip w2;
                  w4 = put_reader_state reader_ip
                         (state\<lparr>mode := Some (req_mode request),
                                target_device := (if req_mode request = ''stream''
                                                  then device_override else None),
                                espuino_ip := Some reader_ip\<rparr>) w3
              in play_tonie_for_reader e reader_ip uid device_override True (Some ov) w4))"

text \<open>
  \<open>handle_control_command\<close>, the handler of \<open>POST /control\<close>: a button of the reader
  that acts as remote control.
\<close>

datatype control_reply = ControlStatus bool string | ControlError string

definition handle_control_command :: "env \<Rightarrow> string \<Rightarrow> string \<Rightarrow> world
    \<Rightarrow> (http_error + control_reply) \<times> world" where
  "handle_control_command e reader_ip request_action w =
     (let (state, w1) = get_reader_state reader_ip w in
      case current_tag state of
        None \<Rightarrow> (Inr (ControlError ''No active stream''), w1)
      | Some current \<Rightarrow>
          (let device = (case target_device state of
                           Some d \<Rightarrow> d
                         | None \<Rightarrow> playing_device e reader_ip state);
               action = py_lower request_action
           in if dev_type device = [] then (Inr (ControlError ''No device configured''), w1)
              else if action = ''play''
              then (if is_device_playing e device
                    then (Inr (ControlStatus (pause_result e device) action),
                          add_calls [PauseDevice device] w1)
                    else (Inr (ControlStatus (resume_result e device) action),
                          add_calls [ResumeDevice device] w1))
              else if action = ''pause''
              then (Inr (ControlStatus (pause_result e device) action),
                    add_calls [PauseDevice device] w1)
              else if action = ''stop''
              then (Inr (ControlStatus (stop_result e device) action),
                    add_calls [StopDevice device]
                      (put_reader_state reader_ip
                         (state\<lparr>current_tag := None, mode := Some ''local'',
                                target_device := None\<rparr>) w1))
              else if action = ''skip''
              then (case ct_duration current of
                      Some None \<Rightarrow> (Inl (HTTPException 500), w1)
                    | _ \<Rightarrow>
                        (let duration = (case ct_duration current of
                                           Some (Some d) \<Rightarrow> d | _ \<Rightarrow> 0);
                             new_pos = min (last_reported_position state + 60)
                                           (real_of_int duration - 1)
                         in if duration > 0
                            then (if seek_result e device new_pos
                                  then (Inr (ControlStatus True action),
                                        add_calls [SeekDevice device new_pos]
                                          (put_reader_state reader_ip
                                             (state\<lparr>last_reported_position := new_pos\<rparr>) w1))
                                  else (Inr (ControlStatus False action),
                                        add_calls [SeekDevice device new_pos] w1))
                            else (Inr (ControlStatus False action), w1)))
              else if action = ''prev''
              then (let new_pos = max (last_reported_position state - 60) 0
                    in if seek_result e device new_pos
                       then (Inr (ControlStatus True action),
                             add_calls [SeekDevice device new_pos]
                               (put_reader_state reader_ip
                                  (state\<lparr>last_reported_position := new_pos\<rparr>) w1))
                       else (Inr (ControlStatus False action),
                             add_calls [SeekDevice device new_pos] w1))
              else if action = ''volume_up'' \<or> action = ''volume_down''
              then (Inr (ControlStatus True action), w1)
              else (Inr (ControlError (''Unknown action: '' @ action)), w1)))"

subsection \<open>Reachable states\<close>

text \<open>
  The states the server can be in: it starts with empty dictionaries, and each request
  to one of the three handlers, in any environment, leads from a state to the next.
\<close>

definition initial_world :: world where
  "initial_world =
     \<lparr>reader_states = Map.empty, connected_readers = Map.empty, recent_scans = [],
      device_calls = []\<rparr>"

inductive reachable :: "world \<Rightarrow> bool" where
  start: "reachable initial_world"
| tonie: "reachable w \<Longrightarrow> reachable (snd (handle_tonie e request client_host w))"
| play: "reachable w \<Longrightarrow>
         reachable (snd (play_tonie_for_reader e reader_ip uid device_override record_scan
                      metadata_override w))"
| control: "reachable w \<Longrightarrow> reachable (snd (handle_control_command e reader_ip action w))"

text \<open>The reader's state as the handlers see it.\<close>

definition state_of :: "string \<Rightarrow> world \<Rightarrow> reader_state" where
  "state_of reader_ip w = fst (get_reader_state reader_ip w)"

text \<open>The invariant as the specification words it: a paused resume point implies a current tag.\<close>

definition spec_paused_implies_current :: "reader_state \<Rightarrow> bool" where
  "spec_paused_implies_current state =
     (case resume state of
        Some r \<Rightarrow> \<not> res_paused r \<or> current_tag state \<noteq> None
      | None \<Rightarrow> True)"

subsection \<open>A session\<close>

text \<open>
  The specification's first two scenarios, continued: the reader at 192.0.2.10 scans a
  tag in stream mode onto a multi-room speaker, the tag is removed while the speaker
  reports position 42, and then the reader's stop button is pressed.
\<close>

definition speaker :: device where
  "speaker = \<lparr>dev_type = ''sonos'', dev_id = ''RINCON_1''\<rparr>"

definition demo_env :: env where
  "demo_env =
     \<lparr>now = 1000,
      now_iso = ''2025-01-01T12:00:00'',
      device_for_reader = (\<lambda>ip. speaker),
      reader_device_override = (\<lambda>ip. None),
      cached_reader_name = (\<lambda>ip. None),
      device_position = (\<lambda>d. Some 42),
      pause_result = (\<lambda>d. True),
      stop_result = (\<lambda>d. True),
      resume_result = (\<lambda>d. True),
      seek_result = (\<lambda>d p. True),
      is_device_playing = (\<lambda>d. True),
      client_initialized = True,
      tag_index = [long_tag],
      catalog = [],
      build_audio_url = (\<lambda>t uid. ''http://tc/content/download/E00403501316804B''),
      build_playback_url = (\<lambda>a t. ''http://192.0.2.1:8754/transcode.mp3?url=x''),
      build_playlist_url = (\<lambda>a. None),
      cached_track_count = (\<lambda>a. None),
      drive = (\<lambda>ip uid. \<lparr>dr_calls = [StartPlayback speaker
                                         ''http://192.0.2.1:8754/transcode.mp3?url=x''],
                          dr_started = True, dr_encoding = True\<rparr>)\<rparr>"

definition scan_request :: tonie_request where
  "scan_request =
     \<lparr>req_uid = Some ''E0:04:03:50:13:16:80:4B'', req_mode = ''stream'',
      req_target_device = Some speaker, req_espuino_ip = Some ''192.0.2.10'',
      req_title = None, req_series = None, req_episode = None, req_picture = None,
      req_tracks = None, req_audio_url = None\<rparr>"

definition removal_request :: tonie_request where
  "removal_request = scan_request\<lparr>req_uid := None\<rparr>"

definition w_playing :: world where
  "w_playing = snd (handle_tonie demo_env scan_request None initial_world)"

definition w_removed :: world where
  "w_removed = snd (handle_tonie demo_env removal_request None w_playing)"

definition w_stopped :: world where
  "w_stopped = snd (handle_control_command demo_env ''192.0.2.10'' ''stop'' w_removed)"

section \<open>Tag lookup\<close>

lemma uid_matches_suffix: "uid_matches cand n = suffix n cand"
  by (auto simp: uid_matches_def)

lemma find_neq_None_iff: "(List.find P xs \<noteq> None) = (\<exists>x\<in>set xs. P x)"
  by (induction xs) auto

lemma suffix_last_n:
  "suffix n cand \<longleftrightarrow> length n \<le> length cand \<and> py_last_n (length n) cand = n"
proof
  assume "suffix n cand"
  then obtain zs where "cand = zs @ n" by (auto simp: suffix_def)
  then show "length n \<le> length cand \<and> py_last_n (length n) cand = n"
    by (simp add: py_last_n_def)
next
  assume a: "length n \<le> length cand \<and> py_last_n (length n) cand = n"
  have "suffix (drop (length cand - length n) cand) cand" by (rule suffix_drop)
  with a show "suffix n cand" by (simp add: py_last_n_def)
qed

text \<open>
  C6, as the code has it. The lookup finds something exactly when some index entry's
  normalised UID, or some catalog entry's normalised UID or upper-cased model, ends with
  the whole normalised queried UID. When the query has exactly 8 characters after
  normalisation (the 4-byte suffix a reader sends), ending with it is the same as
  having it as the last 8 characters.
\<close>

theorem find_tonie_by_uid_whole_query_suffix:
  "(find_tonie_by_uid uid tags tonies \<noteq> None \<longleftrightarrow>
      (\<exists>tag\<in>set tags. suffix (normalize_uid uid) (normalize_uid (tag_uid tag)))
      \<or> (\<exists>t\<in>set tonies. suffix (normalize_uid uid) (normalize_uid (get_str (t_uid t)))
                          \<or> suffix (normalize_uid uid) (py_upper (get_str (t_model t)))))
   \<and> (length (normalize_uid uid) = 8 \<longrightarrow>
        (find_tonie_by_uid uid [tag] [] \<noteq> None \<longleftrightarrow>
           8 \<le> length (normalize_uid (tag_uid tag))
           \<and> py_last_n 8 (normalize_uid (tag_uid tag)) = normalize_uid uid))"
proof (intro conjI impI)
  show "find_tonie_by_uid uid tags tonies \<noteq> None \<longleftrightarrow>
      (\<exists>tag\<in>set tags. suffix (normalize_uid uid) (normalize_uid (tag_uid tag)))
      \<or> (\<exists>t\<in>set tonies. suffix (normalize_uid uid) (normalize_uid (get_str (t_uid t)))
                          \<or> suffix (normalize_uid uid) (py_upper (get_str (t_model t))))"
  proof -
    let ?P = "\<lambda>tag. uid_matches (normalize_uid (tag_uid tag)) (normalize_uid uid)"
    let ?Q = "\<lambda>t. uid_matches (normalize_uid (get_str (t_uid t))) (normalize_uid uid)
                   \<or> uid_matches (py_upper (get_str (t_model t))) (normalize_uid uid)"
    have "find_tonie_by_uid uid tags tonies \<noteq> None \<longleftrightarrow>
            List.find ?P tags \<noteq> None \<or> List.find ?Q tonies \<noteq> None"
      by (cases "List.find ?P tags") (simp_all add: find_tonie_by_uid_def Let_def)
    then show ?thesis
      unfolding find_neq_None_iff uid_matches_suffix .
  qed
next
  assume len: "length (normalize_uid uid) = 8"
  have "find_tonie_by_uid uid [tag] [] \<noteq> None \<longleftrightarrow>
          suffix (normalize_uid uid) (normalize_uid (tag_uid tag))"
    by (simp add: find_tonie_by_uid_def Let_def uid_matches_suffix)
  also have "\<dots> \<longleftrightarrow> 8 \<le> length (normalize_uid (tag_uid tag))
           \<and> py_last_n 8 (normalize_uid (tag_uid tag)) = normalize_uid uid"
    using suffix_last_n [of "normalize_uid uid" "normalize_uid (tag_uid tag)"] len by simp
  finally show "find_tonie_by_uid uid [tag] [] \<noteq> None \<longleftrightarrow>
           8 \<le> length (normalize_uid (tag_uid tag))
           \<and> py_last_n 8 (normalize_uid (tag_uid tag)) = normalize_uid uid" .
qed

text \<open>
  At a concrete input: a reader sends the 4-byte suffix in lower case, the index stores
  the full 8-byte UID.
\<close>

theorem find_tonie_by_uid_whole_query_suffix_witness:
  "length (normalize_uid ''13:16:80:4b'') = 8
   \<and> (\<exists>tag\<in>set [example_tag ''E0:04:03:50:13:16:80:4B''].
          suffix (normalize_uid ''13:16:80:4b'') (normalize_uid (tag_uid tag)))
   \<and> find_tonie_by_uid ''13:16:80:4b'' [example_tag ''E0:04:03:50:13:16:80:4B''] [] \<noteq> None"
  using find_tonie_by_uid_whole_query_suffix
     [of "''13:16:80:4b''" "[example_tag ''E0:04:03:50:13:16:80:4B'']" "[]"
         "example_tag ''E0:04:03:50:13:16:80:4B''"]
  by (simp add: example_tag_def normalize_uid_def py_upper_def py_upper_char_def
        py_last_n_def suffix_def Let_def)

text \<open>
  The claim as the specification words it fails in both directions. A full 8-byte query
  and a record that stores only the 4-byte suffix agree on their last 8 characters, and
  the lookup finds nothing; a 1-byte query is found in a record whose last 8 characters
  differ from it.
\<close>

theorem find_tonie_by_uid_last8_counterexample:
  "spec_last8_match ''E0:04:03:50:13:16:80:4B'' ''13:16:80:4B''
   \<and> find_tonie_by_uid ''E0:04:03:50:13:16:80:4B'' [example_tag ''13:16:80:4B''] [] = None
   \<and> \<not> spec_last8_match ''4B'' ''E0:04:03:50:13:16:80:4B''
   \<and> find_tonie_by_uid ''4B'' [example_tag ''E0:04:03:50:13:16:80:4B''] [] \<noteq> None"
  by (simp add: spec_last8_match_def find_tonie_by_uid_def example_tag_def uid_matches_def
        normalize_uid_def py_upper_def py_upper_char_def py_last_n_def suffix_def Let_def)

section \<open>The device tag id\<close>

lemma hex_char_props:
  "list_all (\<lambda>d. hex_digit_val (hex_char d) = Some d \<and> \<not> py_isspace (hex_char d)
      \<and> hex_char d \<notin> set ''+-_xX:'' \<and> is_upper_hex (hex_char d)
      \<and> py_upper_char (hex_char d) = hex_char d) [0..<16]"
  by code_simp

lemma hex_char_facts:
  "hex_digit_val (hex_char d) = Some (d mod 16)" "\<not> py_isspace (hex_char d)"
  "hex_char d \<noteq> CHR ''+''" "hex_char d \<noteq> CHR ''-''" "hex_char d \<noteq> CHR ''_''"
  "hex_char d \<noteq> CHR ''x''" "hex_char d \<noteq> CHR ''X''" "hex_char d \<noteq> CHR '':''"
  "is_upper_hex (hex_char d)"
proof -
  have m: "d mod 16 \<in> set [0..<16]" by simp
  have e: "hex_char d = hex_char (d mod 16)" by (simp add: hex_char_def)
  from hex_char_props m
  have "hex_digit_val (hex_char (d mod 16)) = Some (d mod 16) \<and> \<not> py_isspace (hex_char (d mod 16))
      \<and> hex_char (d mod 16) \<notin> set ''+-_xX:'' \<and> is_upper_hex (hex_char (d mod 16))"
    unfolding list_all_iff by blast
  then show "hex_digit_val (hex_char d) = Some (d mod 16)" "\<not> py_isspace (hex_char d)"
  "hex_char d \<noteq> CHR ''+''" "hex_char d \<noteq> CHR ''-''" "hex_char d \<noteq> CHR ''_''"
  "hex_char d \<noteq> CHR ''x''" "hex_char d \<noteq> CHR ''X''" "hex_char d \<noteq> CHR '':''"
  "is_upper_hex (hex_char d)"
    unfolding e [symmetric] by auto
qed

lemma py_int16_hex_byte:
  assumes "b < 256"
  shows "py_int16 (hex_byte b) = Inr (int b)"
proof -
  have d1: "(b div 16) mod 16 = b div 16" using assms by simp
  have v: "hex_value [hex_char (b div 16), hex_char b] = b"
    using d1 by (simp add: hex_value_def hex_char_facts)
  show ?thesis
    unfolding py_int16_def hex_byte_def Let_def
    by (simp add: hex_char_facts int_body_char_def v)
qed

lemma int_all_hex_bytes:
  "\<forall>b\<in>set bs. b < 256 \<Longrightarrow> int_all (map hex_byte bs) = Inr (map int bs)"
  by (induction bs) (simp_all add: py_int16_hex_byte)

lemma str_nat_lt10: "n < 10 \<Longrightarrow> str_nat n = [digit_char n]"
  by (subst str_nat.simps) simp

lemma str_nat_lt100: "10 \<le> n \<Longrightarrow> n < 100 \<Longrightarrow> str_nat n = [digit_char (n div 10), digit_char n]"
  by (subst str_nat.simps) (simp add: str_nat_lt10)

lemma str_nat_lt1000:
  "100 \<le> n \<Longrightarrow> n < 1000 \<Longrightarrow> str_nat n = [digit_char (n div 100), digit_char (n div 10), digit_char n]"
  by (subst str_nat.simps) (simp add: str_nat_lt100 div_mult2_eq [symmetric])

lemma fmt_03d_dec3:
  assumes "b < 1000"
  shows "fmt_03d (int b) = dec3 b"
proof -
  consider "b < 10" | "10 \<le> b" "b < 100" | "100 \<le> b" using assms by linarith
  then show ?thesis
  proof cases
    case 1
    then show ?thesis
      by (simp add: fmt_03d_def dec3_def zfill_def str_nat_lt10 digit_char_def numeral_3_eq_3)
  next
    case 2
    then show ?thesis
      by (simp add: fmt_03d_def dec3_def zfill_def str_nat_lt100 digit_char_def)
  next
    case 3
    then show ?thesis using assms
      by (simp add: fmt_03d_def dec3_def zfill_def str_nat_lt1000)
  qed
qed

lemma py_split_no_sep: "sep \<notin> set p \<Longrightarrow> py_split sep p = [p]"
  by (induction p) auto

lemma py_split_append:
  "sep \<notin> set p \<Longrightarrow> py_split sep (p @ sep # rest) = p # py_split sep rest"
  by (induction p) auto

lemma py_split_colon_join:
  "ps \<noteq> [] \<Longrightarrow> \<forall>p\<in>set ps. sep \<notin> set p \<Longrightarrow> sep = CHR '':'' \<Longrightarrow> py_split sep (colon_join ps) = ps"
  by (induction ps rule: colon_join.induct) (simp_all add: py_split_no_sep py_split_append)

lemma colon_in_join: "2 \<le> length ps \<Longrightarrow> CHR '':'' \<in> set (colon_join ps)"
  by (induction ps rule: colon_join.induct) simp_all

lemma hex_byte_no_colon: "CHR '':'' \<notin> set (hex_byte b)"
  using hex_char_facts(8) [of "b div 16"] hex_char_facts(8) [of b] by (auto simp: hex_byte_def)

lemma hex_byte_nonempty: "hex_byte b \<noteq> []"
  by (simp add: hex_byte_def)

lemma drop_concat_hex:
  "drop (2 * k) (concat (map hex_byte bs)) = concat (map hex_byte (drop k bs))"
proof (induction bs arbitrary: k)
  case Nil
  then show ?case by simp
next
  case (Cons b bs)
  show ?case
  proof (cases k)
    case 0
    then show ?thesis by simp
  next
    case (Suc j)
    have "drop (2 * Suc j) (hex_byte b @ concat (map hex_byte bs)) = drop (2 * j) (concat (map hex_byte bs))"
      by (simp add: hex_byte_def)
    then show ?thesis using Cons.IH [of j] Suc by simp
  qed
qed

lemma length_concat_hex: "length (concat (map hex_byte bs)) = 2 * length bs"
  by (induction bs) (simp_all add: hex_byte_def)

lemma filter_hex_concat: "filter is_upper_hex (concat (map hex_byte bs)) = concat (map hex_byte bs)"
  by (induction bs) (simp_all add: hex_byte_def hex_char_facts)

lemma no_colon_concat: "CHR '':'' \<notin> set (concat (map hex_byte bs))"
  using hex_byte_no_colon by auto

lemma length4_explicit:
  assumes "length xs = 4"
  shows "\<exists>a b c d. xs = [a, b, c, d]"
proof -
  from assms have "length xs = Suc (Suc (Suc (Suc 0)))" by simp
  then show ?thesis by (auto simp: length_Suc_conv)
qed

lemma py_upper_nonempty: "py_upper uid = x \<Longrightarrow> x \<noteq> [] \<Longrightarrow> uid \<noteq> []"
  by (auto simp: py_upper_def)

lemma tag_id_colon_form:
  assumes len: "4 \<le> length bs" and bytes: "\<forall>b\<in>set bs. b < 256"
    and up: "py_upper uid = colon_join (map hex_byte bs)"
  shows "uid_to_espuino_tag_id uid = concat (map dec3 (rev (py_last_n 4 bs)))"
proof -
  let ?ps = "map hex_byte bs"
  have ne: "?ps \<noteq> []" using len by auto
  have nocolon: "\<forall>p\<in>set ?ps. CHR '':'' \<notin> set p" using hex_byte_no_colon by auto
  have split: "py_split CHR '':'' (colon_join ?ps) = ?ps"
    using py_split_colon_join [OF ne nocolon] by simp
  have filt: "filter (\<lambda>p. p \<noteq> []) ?ps = ?ps"
    by (induction bs) (simp_all add: hex_byte_nonempty)
  have colon: "CHR '':'' \<in> set (colon_join ?ps)"
    using colon_in_join [of ?ps] len by simp
  have "colon_join ?ps \<noteq> []" using colon by auto
  then have uid_ne: "uid \<noteq> []" using up py_upper_nonempty by blast
  have last4: "py_last_n 4 ?ps = map hex_byte (py_last_n 4 bs)"
    by (simp add: py_last_n_def drop_map)
  have small: "\<forall>b\<in>set (rev (py_last_n 4 bs)). b < 256"
    using bytes by (auto simp: py_last_n_def dest: in_set_dropD)
  have ints: "int_all (rev (map hex_byte (py_last_n 4 bs))) = Inr (map int (rev (py_last_n 4 bs)))"
    using int_all_hex_bytes [OF small] by (simp add: rev_map)
  have fmt: "map fmt_03d (map int (rev (py_last_n 4 bs))) = map dec3 (rev (py_last_n 4 bs))"
    using small by (auto simp: fmt_03d_dec3)
  have "uid_to_espuino_tag_id uid = concat (map fmt_03d (map int (rev (py_last_n 4 bs))))"
    unfolding uid_to_espuino_tag_id_def Let_def
    using uid_ne colon len by (simp add: up split filt last4 ints del: map_map)
  then show ?thesis by (simp only: fmt)
qed

lemma tag_id_plain_form:
  assumes len: "4 \<le> length bs" and bytes: "\<forall>b\<in>set bs. b < 256"
    and up: "py_upper uid = concat (map hex_byte bs)"
  shows "uid_to_espuino_tag_id uid = concat (map dec3 (rev (py_last_n 4 bs)))"
proof -
  let ?raw = "concat (map hex_byte bs)"
  let ?n = "length ?raw"
  have n: "?n = 2 * length bs" by (rule length_concat_hex)
  have n8: "\<not> ?n < 8" using len n by simp
  have "?raw \<noteq> []"
  proof
    assume "?raw = []"
    then have "?n = 0" by (simp only: list.size)
    with n8 show False by linarith
  qed
  then have uid_ne: "uid \<noteq> []" using up py_upper_nonempty by blast
  have "length (py_last_n 4 bs) = 4" using len by (simp add: py_last_n_def)
  then obtain a b c d where abcd: "py_last_n 4 bs = [a, b, c, d]"
    using length4_explicit by blast
  have "?n - 8 = 2 * (length bs - 4)" using n by simp
  then have tail: "drop (?n - 8) ?raw = hex_byte a @ hex_byte b @ hex_byte c @ hex_byte d"
    using drop_concat_hex [of "length bs - 4" bs] abcd by (simp add: py_last_n_def)
  have d6: "drop (?n - 6) ?raw = drop 2 (drop (?n - 8) ?raw)"
   and d4: "drop (?n - 4) ?raw = drop 4 (drop (?n - 8) ?raw)"
   and d2: "drop (?n - 2) ?raw = drop 6 (drop (?n - 8) ?raw)"
  proof -
    have e: "?n - 6 = 2 + (?n - 8)" "?n - 4 = 4 + (?n - 8)" "?n - 2 = 6 + (?n - 8)"
      using n8 by linarith+
    show "drop (?n - 6) ?raw = drop 2 (drop (?n - 8) ?raw)"
      "drop (?n - 4) ?raw = drop 4 (drop (?n - 8) ?raw)"
      "drop (?n - 2) ?raw = drop 6 (drop (?n - 8) ?raw)"
      unfolding drop_drop e [symmetric] by (rule refl)+
  qed
  have chunks: "map (\<lambda>i. take 2 (drop i ?raw)) [?n - 8, ?n - 6, ?n - 4, ?n - 2]
                  = map hex_byte [a, b, c, d]"
    unfolding list.map d6 d4 d2 tail by (simp add: hex_byte_def)
  have small: "\<forall>x\<in>set (rev [a, b, c, d]). x < 256"
    using bytes abcd [symmetric] by (auto simp: py_last_n_def dest: in_set_dropD)
  have ints: "int_all (rev (map hex_byte [a, b, c, d])) = Inr (map int (rev [a, b, c, d]))"
    using int_all_hex_bytes [OF small] by (simp only: rev_map)
  have fmt: "map fmt_03d (map int (rev [a, b, c, d])) = map dec3 (rev [a, b, c, d])"
    using small by (auto simp: fmt_03d_dec3)
  have "uid_to_espuino_tag_id uid = concat (map fmt_03d (map int (rev [a, b, c, d])))"
    unfolding uid_to_espuino_tag_id_def Let_def up filter_hex_concat chunks
    using uid_ne no_colon_concat [of bs] n8 ints by (simp del: map_map)
  then show ?thesis by (simp only: fmt abcd)
qed

lemma dec3_length: "length (concat (map dec3 xs)) = 3 * length xs"
  by (induction xs) (simp_all add: dec3_def)

text \<open>
  C8. For a UID of at least four bytes, written as colon-separated or plain
  hexadecimal byte pairs in either case, the derived tag id is the last four bytes in
  reversed order, each as exactly three decimal digits. The liveness check derives
  this id for such a UID, finds it not empty, and then raises \<open>NameError\<close> on the
  name \<open>aiohttp\<close>: it never asks the device for its active tag and never compares
  the two, although its docstring says that it pings \<open>/settings\<close>, compares
  \<open>rfidTagId\<close> and returns \<open>True\<close>, \<open>False\<close> or \<open>None\<close>.
\<close>

theorem check_espuino_active_tag_raises_name_error:
  assumes "4 \<le> length bs" and "\<forall>b\<in>set bs. b < 256"
    and "py_upper uid = colon_join (map hex_byte bs) \<or> py_upper uid = concat (map hex_byte bs)"
    and "ip \<noteq> []"
  shows "uid_to_espuino_tag_id uid = concat (map dec3 (rev (py_last_n 4 bs)))
       \<and> check_espuino_active_tag ip uid = Inl NameError"
proof -
  have id: "uid_to_espuino_tag_id uid = concat (map dec3 (rev (py_last_n 4 bs)))"
    using assms(1-3) tag_id_colon_form tag_id_plain_form by blast
  have "length (uid_to_espuino_tag_id uid) = 12"
    using assms(1) by (simp add: id dec3_length py_last_n_def)
  then have ne: "uid_to_espuino_tag_id uid \<noteq> []" by auto
  have "py_upper uid \<noteq> []" using assms(1,3) ne
    by (auto simp: uid_to_espuino_tag_id_def py_upper_def)
  then have "uid \<noteq> []" by (auto simp: py_upper_def)
  then have "check_espuino_active_tag ip uid = Inl NameError"
    using ne assms(4) by (simp add: check_espuino_active_tag_def Let_def)
  with id show ?thesis by (rule conjI)
qed

text \<open>
  The UID of the specification's first scenario, sent in lower case, on the reader at
  192.0.2.10.
\<close>

theorem check_espuino_active_tag_raises_name_error_witness:
  "4 \<le> length [224, 4, 3, 80, 19, 22, 128, 75::nat]
   \<and> list_all (\<lambda>b. b < 256) [224, 4, 3, 80, 19, 22, 128, 75::nat]
   \<and> py_upper ''e0:04:03:50:13:16:80:4b''
         = colon_join (map hex_byte [224, 4, 3, 80, 19, 22, 128, 75])
   \<and> ''192.0.2.10'' \<noteq> []
   \<and> uid_to_espuino_tag_id ''e0:04:03:50:13:16:80:4b'' = ''075128022019''
   \<and> check_espuino_active_tag ''192.0.2.10'' ''e0:04:03:50:13:16:80:4b'' = Inl NameError"
proof -
  have a: "(4::nat) \<le> length [224, 4, 3, 80, 19, 22, 128, 75::nat]" by simp
  have b: "\<forall>b\<in>set [224, 4, 3, 80, 19, 22, 128, 75::nat]. b < 256" by simp
  have c: "py_upper ''e0:04:03:50:13:16:80:4b''
             = colon_join (map hex_byte [224, 4, 3, 80, 19, 22, 128, 75])"
    by (simp add: py_upper_def py_upper_char_def hex_byte_def hex_char_def)
  have d: "''192.0.2.10'' \<noteq> []" by simp
  show ?thesis
    using a b c d check_espuino_active_tag_raises_name_error [OF a b disjI1 [OF c] d]
    by (simp add: py_last_n_def dec3_def digit_char_def)
qed

section \<open>The pseudo-track\<close>

text \<open>
  C2, as the code has it. A tag without track data gets exactly one pseudo-track, named
  \<open>Full Audio\<close> and starting at 0, whose duration is the known duration when that is
  positive and 7200 otherwise; no upper bound is applied. Up to 7200 seconds this is
  the minimum of the known duration and 7200.
\<close>

theorem tonie_tracks_pseudo_track:
  assumes "get_tracks tonie = []"
  shows "tonie_tracks tonie =
           [\<lparr>tr_name = Some ''Full Audio'', tr_start = Some 0,
             tr_duration = Some (if 0 < get_duration tonie then get_duration tonie else 7200)\<rparr>]
         \<and> (0 < get_duration tonie \<and> get_duration tonie \<le> 7200 \<longrightarrow>
              map tr_duration (tonie_tracks tonie) = [Some (min (get_duration tonie) 7200)])"
  using assms by (simp add: tonie_tracks_def Let_def)

theorem tonie_tracks_pseudo_track_witness:
  "get_tracks (tag_result ''1316804B'' (long_tag\<lparr>trackSeconds := [1800]\<rparr>)) = []
   \<and> tonie_tracks (tag_result ''1316804B'' (long_tag\<lparr>trackSeconds := [1800]\<rparr>)) =
        [\<lparr>tr_name = Some ''Full Audio'', tr_start = Some 0, tr_duration = Some 1800\<rparr>]"
proof -
  have g: "get_tracks (tag_result ''1316804B'' (long_tag\<lparr>trackSeconds := [1800]\<rparr>)) = []"
    by (simp add: get_tracks_def tag_result_def long_tag_def)
  have d: "get_duration (tag_result ''1316804B'' (long_tag\<lparr>trackSeconds := [1800]\<rparr>)) = 1800"
    by (simp add: get_duration_def tag_result_def long_tag_def)
  show ?thesis
    using g tonie_tracks_pseudo_track [OF g] by (simp add: d)
qed

text \<open>
  The claim's clamp is not there: a tag whose only \<open>trackSeconds\<close> entry is 9000 is
  found with duration 9000 and no tracks, and its pseudo-track runs 9000 seconds, not
  \<open>min 9000 7200\<close>.
\<close>

theorem tonie_tracks_clamp_counterexample:
  "find_tonie_by_uid ''1316804B'' [long_tag] [] = Some (tag_result ''1316804B'' long_tag)
   \<and> get_tracks (tag_result ''1316804B'' long_tag) = []
   \<and> get_duration (tag_result ''1316804B'' long_tag) = 9000
   \<and> map tr_duration (tonie_tracks (tag_result ''1316804B'' long_tag)) = [Some 9000]
   \<and> map tr_duration (tonie_tracks (tag_result ''1316804B'' long_tag))
        \<noteq> [Some (min 9000 7200)]"
  by (simp add: find_tonie_by_uid_def uid_matches_def normalize_uid_def py_upper_def
        py_upper_char_def suffix_def long_tag_def tag_result_def get_tracks_def
        get_duration_def tonie_tracks_def Let_def)

section \<open>Cache eviction\<close>







section \<open>Album metadata\<close>

lemma nonempty_file_upd:
  "0 < sz \<Longrightarrow> nonempty_file fs g \<Longrightarrow> nonempty_file (fs(f \<mapsto> sz)) g"
  by (simp add: nonempty_file_def)

lemma nonempty_file_upd_same: "0 < sz \<Longrightarrow> nonempty_file (fs(f \<mapsto> sz)) f"
  by (simp add: nonempty_file_def)

lemma entry_ok_upd: "0 < sz \<Longrightarrow> entry_ok tracks fs t \<Longrightarrow> entry_ok tracks (fs(f \<mapsto> sz)) t"
  by (simp add: entry_ok_def nonempty_file_upd)

lemma drop_Cons_nth: "drop i xs = y # ys \<Longrightarrow> i < length xs \<and> xs ! i = y \<and> drop (Suc i) xs = ys"
  by (metis Cons_nth_drop_Suc drop_all linorder_not_less list.distinct(1) list.inject)

lemma sorted_wrt_snoc_index:
  "sorted_wrt (<) (map info_index infos) \<Longrightarrow> \<forall>t\<in>set infos. info_index t < i
   \<Longrightarrow> info_index x = i \<Longrightarrow> sorted_wrt (<) (map info_index (infos @ [x]))"
  by (simp add: sorted_wrt_append)

lemma encode_all_loop_inv:
  assumes "enc_nonempty enc"
    and "encode_all_loop enc i ts fs infos = (fs', Some infos')"
    and "drop i tracks = ts"
    and "\<forall>t\<in>set infos. entry_ok tracks fs t \<and> 0 < info_duration_seconds t \<and> info_index t < i"
    and "sorted_wrt (<) (map info_index infos)"
  shows "(\<forall>t\<in>set infos'. entry_ok tracks fs' t \<and> 0 < info_duration_seconds t)
       \<and> sorted_wrt (<) (map info_index infos')"
  using assms(2-)
proof (induction ts arbitrary: i fs infos)
  case Nil
  then show ?case by auto
next
  case (Cons track rest)
  from drop_Cons_nth [OF Cons.prems(2)]
  have i: "i < length tracks" and nth: "tracks ! i = track" and dr: "drop (i + 1) tracks = rest"
    by simp_all
  have older: "\<forall>t\<in>set infos. entry_ok tracks fs t \<and> 0 < info_duration_seconds t \<and> info_index t < i + 1"
    using Cons.prems(3) by auto
  show ?case
  proof (cases "track_duration track \<le> 0")
    case True
    with Cons.prems(1) have "encode_all_loop enc (i + 1) rest fs infos = (fs', Some infos')"
      by simp
    from Cons.IH [OF this dr older Cons.prems(4)] show ?thesis .
  next
    case False
    then obtain sz where e: "enc i = Some sz"
      using Cons.prems(1) by (cases "enc i") auto
    then have pos: "0 < sz" using assms(1) by (auto simp: enc_nonempty_def)
    let ?info = "track_info_of i track"
    let ?fs = "fs(info_filename ?info \<mapsto> sz)"
    have run: "encode_all_loop enc (i + 1) rest ?fs (infos @ [?info]) = (fs', Some infos')"
      using Cons.prems(1) False e by simp
    have idx: "info_index ?info = i" by (simp add: track_info_of_def)
    have new_ok: "entry_ok tracks ?fs ?info"
      using i nth pos by (simp add: entry_ok_def idx nonempty_file_upd_same)
    have new_dur: "0 < info_duration_seconds ?info"
      using False by (simp add: track_info_of_def)
    have inv: "\<forall>t\<in>set (infos @ [?info]).
        entry_ok tracks ?fs t \<and> 0 < info_duration_seconds t \<and> info_index t < i + 1"
      using Cons.prems(3) new_ok new_dur idx pos by (auto simp: entry_ok_upd)
    have srt: "sorted_wrt (<) (map info_index (infos @ [?info]))"
      using sorted_wrt_snoc_index [OF Cons.prems(4) _ idx] Cons.prems(3) by blast
    from Cons.IH [OF run dr inv srt] show ?thesis .
  qed
qed

lemma encode_all_loop_contiguous:
  assumes "encode_all_loop enc i ts fs infos = (fs', Some infos')"
    and "\<forall>t\<in>set ts. 0 < track_duration t"
  shows "map info_index infos' = map info_index infos @ [i..<i + length ts]"
  using assms
proof (induction ts arbitrary: i fs infos)
  case Nil
  then show ?case by simp
next
  case (Cons track rest)
  then obtain sz where e: "enc i = Some sz"
    by (cases "enc i") auto
  have "encode_all_loop enc (i + 1) rest (fs(info_filename (track_info_of i track) \<mapsto> sz))
          (infos @ [track_info_of i track]) = (fs', Some infos')"
    using Cons.prems e by simp
  from Cons.IH [OF this] Cons.prems(2)
  have "map info_index infos' = map info_index (infos @ [track_info_of i track]) @ [i + 1..<i + 1 + length rest]"
    by simp
  moreover have "[i..<Suc i + length rest] = i # [Suc i..<Suc i + length rest]"
    by (rule upt_conv_Cons) simp
  ultimately show ?case
    by (simp add: track_info_of_def)
qed

lemma remaining_loop_inv:
  assumes "enc_nonempty enc"
    and "remaining_loop enc cover embedded i ts fs infos = (fs', Some infos')"
    and "drop i tracks = ts"
    and "\<forall>t\<in>set infos. entry_ok tracks fs t
            \<and> (info_index t = 0 \<or> 0 < info_duration_seconds t) \<and> info_index t < i"
    and "sorted_wrt (<) (map info_index infos)"
  shows "(\<forall>t\<in>set infos'. entry_ok tracks fs' t
            \<and> (info_index t = 0 \<or> 0 < info_duration_seconds t))
       \<and> sorted_wrt (<) (map info_index infos')"
  using assms(2-)
proof (induction ts arbitrary: i fs infos)
  case Nil
  then show ?case by auto
next
  case (Cons track rest)
  from drop_Cons_nth [OF Cons.prems(2)]
  have i: "i < length tracks" and nth: "tracks ! i = track" and dr: "drop (i + 1) tracks = rest"
    by simp_all
  let ?info = "track_info_of i track"
  have idx: "info_index ?info = i" by (simp add: track_info_of_def)
  have older: "\<forall>t\<in>set infos. entry_ok tracks fs t
      \<and> (info_index t = 0 \<or> 0 < info_duration_seconds t) \<and> info_index t < i + 1"
    using Cons.prems(3) by auto
  have srt: "sorted_wrt (<) (map info_index (infos @ [?info]))"
    using sorted_wrt_snoc_index [OF Cons.prems(4) _ idx] Cons.prems(3) by blast
  show ?case
  proof (cases "track_duration track \<le> 0")
    case True
    with Cons.prems(1)
    have "remaining_loop enc cover embedded (i + 1) rest fs infos = (fs', Some infos')"
      by simp
    from Cons.IH [OF this dr older Cons.prems(4)] show ?thesis .
  next
    case False
    then have new_dur: "0 < info_duration_seconds ?info"
      by (simp add: track_info_of_def)
    show ?thesis
    proof (cases "nonempty_file fs (info_filename ?info)
              \<and> \<not> (cover \<and> \<not> embedded (info_filename ?info))")
      case True
      with Cons.prems(1) False
      have run: "remaining_loop enc cover embedded (i + 1) rest fs (infos @ [?info])
                  = (fs', Some infos')"
        by simp
      have new_ok: "entry_ok tracks fs ?info"
        using i nth True by (simp add: entry_ok_def idx)
      have inv: "\<forall>t\<in>set (infos @ [?info]). entry_ok tracks fs t
          \<and> (info_index t = 0 \<or> 0 < info_duration_seconds t) \<and> info_index t < i + 1"
        using Cons.prems(3) new_ok new_dur idx by auto
      from Cons.IH [OF run dr inv srt] show ?thesis .
    next
      case cached: False
      then obtain sz where e: "enc i = Some sz"
        using Cons.prems(1) False by (cases "enc i") auto
      then have pos: "0 < sz" using assms(1) by (auto simp: enc_nonempty_def)
      let ?fs = "fs(info_filename ?info \<mapsto> sz)"
      have run: "remaining_loop enc cover embedded (i + 1) rest ?fs (infos @ [?info])
                  = (fs', Some infos')"
        using Cons.prems(1) False cached e by auto
      have new_ok: "entry_ok tracks ?fs ?info"
        using i nth pos by (simp add: entry_ok_def idx nonempty_file_upd_same)
      have inv: "\<forall>t\<in>set (infos @ [?info]). entry_ok tracks ?fs t
          \<and> (info_index t = 0 \<or> 0 < info_duration_seconds t) \<and> info_index t < i + 1"
        using Cons.prems(3) new_ok new_dur idx pos by (auto simp: entry_ok_upd)
      from Cons.IH [OF run dr inv srt] show ?thesis .
    qed
  qed
qed

lemma remaining_loop_contiguous:
  assumes "remaining_loop enc cover embedded i ts fs infos = (fs', Some infos')"
    and "\<forall>t\<in>set ts. 0 < track_duration t"
  shows "map info_index infos' = map info_index infos @ [i..<i + length ts]"
  using assms
proof (induction ts arbitrary: i fs infos)
  case Nil
  then show ?case by simp
next
  case (Cons track rest)
  let ?info = "track_info_of i track"
  from Cons.prems obtain fs2 where
    "remaining_loop enc cover embedded (i + 1) rest fs2 (infos @ [?info]) = (fs', Some infos')"
    by (cases "enc i") (auto split: if_splits)
  from Cons.IH [OF this] Cons.prems(2)
  have "map info_index infos' = map info_index (infos @ [?info]) @ [i + 1..<i + 1 + length rest]"
    by simp
  moreover have "[i..<Suc i + length rest] = i # [Suc i..<Suc i + length rest]"
    by (rule upt_conv_Cons) simp
  ultimately show ?case
    by (simp add: track_info_of_def)
qed

lemma first_track_info_eq: "first_track_info t = track_info_of 0 t"
  by (cases "tr_name t")
     (simp_all add: first_track_info_def track_info_of_def fmt_02d_def zfill_def
        str_nat.simps [of "Suc 0"] digit_char_def)

text \<open>
  What the two encoders guarantee. Let the transcoder leave a non-empty file whenever
  it succeeds. When \<open>encode_tonie_tracks\<close> finds no metadata and writes it, or when
  \<open>continue_encoding_remaining_tracks\<close> runs on a directory whose first track file is
  there and writes it, every entry of the written track list has as index a position
  of the input track list, is the entry built from the input track at that position,
  and names a file that exists and is not empty; the indices are strictly increasing;
  and when no input track has a duration of zero or less they are exactly
  \<open>0, 1, \<dots>\<close> in order, each index being the entry's own position.
\<close>

lemma metadata_tracks_follow_input:
  assumes "enc_nonempty enc"
  shows "(dir_metadata dir = None
          \<and> encode_tonie_tracks enc url tracks series episode year dir = (dir', Some m)
          \<longrightarrow> dir_metadata dir' = Some m
              \<and> (\<forall>t\<in>set (md_tracks m).
                     entry_ok tracks (dir_files dir') t \<and> 0 < info_duration_seconds t)
              \<and> sorted_wrt (<) (map info_index (md_tracks m))
              \<and> ((\<forall>t\<in>set tracks. 0 < track_duration t)
                   \<longrightarrow> map info_index (md_tracks m) = [0..<length tracks]))
       \<and> (nonempty_file (dir_files dir) ''01.mp3''
          \<and> continue_encoding_remaining_tracks enc cover embedded url tracks series episode
               year dir = Inr (dir', Some m)
          \<longrightarrow> dir_metadata dir' = Some m
              \<and> (\<forall>t\<in>set (md_tracks m).
                     entry_ok tracks (dir_files dir') t
                     \<and> (info_index t = 0 \<or> 0 < info_duration_seconds t))
              \<and> sorted_wrt (<) (map info_index (md_tracks m))
              \<and> ((\<forall>t\<in>set tracks. 0 < track_duration t)
                   \<longrightarrow> map info_index (md_tracks m) = [0..<length tracks]))"
proof (rule conjI; rule impI)
  assume a: "dir_metadata dir = None
          \<and> encode_tonie_tracks enc url tracks series episode year dir = (dir', Some m)"
  let ?r = "encode_all_loop enc 0 tracks (dir_files dir) []"
  from a have ne: "tracks \<noteq> []" by (auto simp: encode_tonie_tracks_def)
  from a ne obtain infos where loop: "?r = (dir_files dir', Some infos)"
    and m: "md_tracks m = infos" and md: "dir_metadata dir' = Some m"
    by (cases "snd ?r") (auto simp: encode_tonie_tracks_def Let_def prod_eq_iff)
  from encode_all_loop_inv [OF assms loop, of tracks]
  have "(\<forall>t\<in>set infos. entry_ok tracks (dir_files dir') t \<and> 0 < info_duration_seconds t)
        \<and> sorted_wrt (<) (map info_index infos)"
    by simp
  moreover have "(\<forall>t\<in>set tracks. 0 < track_duration t) \<longrightarrow> map info_index infos = [0..<length tracks]"
    using encode_all_loop_contiguous [OF loop] by simp
  ultimately show "dir_metadata dir' = Some m
              \<and> (\<forall>t\<in>set (md_tracks m).
                     entry_ok tracks (dir_files dir') t \<and> 0 < info_duration_seconds t)
              \<and> sorted_wrt (<) (map info_index (md_tracks m))
              \<and> ((\<forall>t\<in>set tracks. 0 < track_duration t)
                   \<longrightarrow> map info_index (md_tracks m) = [0..<length tracks])"
    using md m by simp
next
  assume a: "nonempty_file (dir_files dir) ''01.mp3''
          \<and> continue_encoding_remaining_tracks enc cover embedded url tracks series episode
               year dir = Inr (dir', Some m)"
  then have first: "nonempty_file (dir_files dir) ''01.mp3''" by simp
  from a obtain first_track rest where tr: "tracks = first_track # rest"
    by (cases tracks) (auto simp: continue_encoding_remaining_tracks_def)
  have fname: "info_filename (track_info_of 0 first_track) = ''01.mp3''"
    unfolding first_track_info_eq [of first_track, symmetric] by (simp add: first_track_info_def)
  have ok0: "entry_ok tracks (dir_files dir) (track_info_of 0 first_track)"
    using first by (simp add: entry_ok_def tr fname) (simp add: track_info_of_def)
  show "dir_metadata dir' = Some m
              \<and> (\<forall>t\<in>set (md_tracks m).
                     entry_ok tracks (dir_files dir') t
                     \<and> (info_index t = 0 \<or> 0 < info_duration_seconds t))
              \<and> sorted_wrt (<) (map info_index (md_tracks m))
              \<and> ((\<forall>t\<in>set tracks. 0 < track_duration t)
                   \<longrightarrow> map info_index (md_tracks m) = [0..<length tracks])"
  proof (cases rest)
    case Nil
    with a tr have m: "md_tracks m = [track_info_of 0 first_track]"
      and md: "dir_metadata dir' = Some m" and fs: "dir_files dir' = dir_files dir"
      by (auto simp: continue_encoding_remaining_tracks_def Let_def first_track_info_eq)
    show ?thesis
      using ok0 md by (simp add: m fs tr Nil) (simp add: track_info_of_def)
  next
    case (Cons second more)
    let ?r = "remaining_loop enc cover embedded 1 rest (dir_files dir) [track_info_of 0 first_track]"
    from a tr Cons obtain infos where loop: "?r = (dir_files dir', Some infos)"
      and m: "md_tracks m = infos" and md: "dir_metadata dir' = Some m"
      by (cases "snd ?r")
         (auto simp: continue_encoding_remaining_tracks_def Let_def prod_eq_iff
            first_track_info_eq)
    have dr: "drop 1 tracks = rest" by (simp add: tr)
    have inv0: "\<forall>t\<in>set [track_info_of 0 first_track]. entry_ok tracks (dir_files dir) t
            \<and> (info_index t = 0 \<or> 0 < info_duration_seconds t) \<and> info_index t < 1"
      using ok0 by (simp add: track_info_of_def)
    have srt0: "sorted_wrt (<) (map info_index [track_info_of 0 first_track])" by simp
    from remaining_loop_inv [OF assms loop dr inv0 srt0]
    have "(\<forall>t\<in>set infos. entry_ok tracks (dir_files dir') t
            \<and> (info_index t = 0 \<or> 0 < info_duration_seconds t))
        \<and> sorted_wrt (<) (map info_index infos)" .
    moreover have "(\<forall>t\<in>set tracks. 0 < track_duration t)
        \<longrightarrow> map info_index infos = [0..<length tracks]"
    proof
      assume "\<forall>t\<in>set tracks. 0 < track_duration t"
      then have "\<forall>t\<in>set rest. 0 < track_duration t" by (simp add: tr)
      from remaining_loop_contiguous [OF loop this]
      have "map info_index infos = 0 # [1..<1 + length rest]"
        by (simp add: track_info_of_def)
      moreover have "[0..<Suc 0 + length rest] = 0 # [Suc 0..<Suc 0 + length rest]"
        by (rule upt_conv_Cons) simp
      ultimately show "map info_index infos = [0..<length tracks]"
        by (simp add: tr)
    qed
    ultimately show ?thesis using md m by simp
  qed
qed

text \<open>Unfolding the encoders on concrete albums.\<close>

lemmas encode_eval =
  encode_tonie_tracks_def continue_encoding_remaining_tracks_def track_info_of_def
  first_track_info_def track_duration_def enc_always_def empty_dir_def first_done_dir_def
  nonempty_file_def fmt_02d_def zfill_def str_nat_lt10 digit_char_def Let_def

lemma gap_tracks_from_index:
  "map_option tonie_tracks (find_tonie_by_uid ''1316804B'' [gap_tag] []) = Some gap_tracks"
  by (simp add: find_tonie_by_uid_def uid_matches_def normalize_uid_def py_upper_def
        py_upper_char_def suffix_def gap_tag_def long_tag_def tag_result_def tonie_tracks_def
        get_tracks_def get_duration_def gap_tracks_def str_nat_lt10 digit_char_def Let_def)

text \<open>
  C1 at an album of three tracks whose second track has duration zero, as the lookup
  cuts them from a tag whose \<open>trackSeconds\<close> is \<open>[0, 10, 10, 30]\<close>, with a
  transcoder that always succeeds. On both paths the metadata is written with two
  entries; their files \<open>01.mp3\<close> and \<open>03.mp3\<close> exist and are not empty, but their
  indices are 0 and 2, so the second entry's index is not its position 1 and the
  indices are not contiguous. The collecting loop of \<open>get_concatenated_mp3_path\<close>
  takes the index of an entry to be its position: it finds the files of the album
  without the empty track and gives up on this one, looking for \<open>02.mp3\<close>.
\<close>

theorem encode_skipped_track_index_gap:
  "map_option tonie_tracks (find_tonie_by_uid ''1316804B'' [gap_tag] []) = Some gap_tracks
   \<and> snd gap_album \<noteq> None
   \<and> dir_metadata (fst gap_album) = snd gap_album
   \<and> map info_index (md_tracks (the (snd gap_album))) = [0, 2]
   \<and> map info_filename (md_tracks (the (snd gap_album))) = [''01.mp3'', ''03.mp3'']
   \<and> nonempty_file (dir_files (fst gap_album)) ''01.mp3''
   \<and> nonempty_file (dir_files (fst gap_album)) ''03.mp3''
   \<and> info_index (md_tracks (the (snd gap_album)) ! 1) \<noteq> 1
   \<and> map_sum id (map info_index \<circ> md_tracks \<circ> the \<circ> snd) gap_album_progressive
       = Inr [0, 2]
   \<and> concat_track_files (fst gap_album) = None
   \<and> concat_track_files (fst plain_album) = Some [''01.mp3'', ''02.mp3'']"
  using gap_tracks_from_index
  by (simp add: gap_album_def gap_album_progressive_def plain_album_def gap_tracks_def
        plain_tracks_def concat_track_files_def encode_eval)

section \<open>The playlist\<close>

lemma get_playlist_m3u_fails: "isl (get_playlist_m3u cache_key base_url metadata)"
  by (simp add: get_playlist_m3u_def split: option.split sum.split)

text \<open>
  C9 at the two-track album as the encoder writes its metadata, with durations 10 and
  20 seconds. The handler emits no playlist: it builds the text and then raises
  \<open>NameError\<close> on the name \<open>Response\<close>, as it does on every request that is not
  answered with status 404. The text it has built by then has the shape the claim
  describes, but every \<open>#EXTINF\<close> line carries \<open>-1\<close> instead of the track's duration:
  \<open>TrackInfo.to_dict\<close> stores a duration under \<open>duration_seconds\<close>, and the handler
  reads \<open>duration\<close>, finds nothing and falls back to \<open>-1\<close>.
\<close>

theorem get_playlist_m3u_raises_name_error:
  "map info_duration_seconds (md_tracks (the (snd plain_album))) = [10, 20]
   \<and> get_playlist_m3u ''1a2b3c4d5e6f7a8b'' ''http://192.0.2.1:8754/''
        (Some (map to_dict (md_tracks (the (snd plain_album)))))
      = Inl (Unhandled NameError)
   \<and> m3u_content (rstrip_slash ''http://192.0.2.1:8754/'') ''1a2b3c4d5e6f7a8b''
        (map to_dict (md_tracks (the (snd plain_album))))
      = Inr (''#EXTM3U'' @ newline
             @ ''#EXTINF:-1,Intro'' @ newline
             @ ''http://192.0.2.1:8754/tracks/1a2b3c4d5e6f7a8b/01.mp3'' @ newline
             @ ''#EXTINF:-1,Story'' @ newline
             @ ''http://192.0.2.1:8754/tracks/1a2b3c4d5e6f7a8b/02.mp3'' @ newline)
   \<and> (\<forall>cache_key base_url metadata. isl (get_playlist_m3u cache_key base_url metadata))"
  using get_playlist_m3u_fails
  by (simp add: plain_album_def plain_tracks_def encode_eval get_playlist_m3u_def
        m3u_content_def to_dict_def jget_def rstrip_slash_def str_int_def)

section \<open>Upload retries\<close>

text \<open>
  C7 at an upload whose every attempt is answered with status 500, nobody cancelling,
  with the default \<open>max_retries = 3\<close>. The loop makes three attempts in all, that is
  the first one and two retries, sleeps 5 and 10 seconds before the retries, and then
  reports the error. A third retry and the delay of 20 seconds, which the comment
  \<open>5s, 10s, 20s\<close> and the docstring (\<open>Number of retry attempts on failure\<close>) announce,
  do not happen.
\<close>

theorem upload_to_espuino_two_retries:
  "upload_to_espuino True False (\<lambda>k. False) (\<lambda>k. HttpStatus 500 ''write failed'')
       default_max_retries
     = \<lparr>up_result = UploadError (Some ''HTTP 500: write failed''), up_delays = [5, 10],
        up_attempts = 3\<rparr>"
proof -
  have n: "default_max_retries = Suc (Suc (Suc 0))"
    by (simp add: default_max_retries_def)
  have s: "str_nat 500 = ''500''"
    by (simp add: str_nat_lt1000 digit_char_def)
  show ?thesis
    unfolding upload_to_espuino_def n by (simp add: s)
qed

section \<open>Reader transitions\<close>

lemma state_of_put [simp]:
  "state_of ip (put_reader_state ip' s w) = (if ip = ip' then s else state_of ip w)"
  by (simp add: state_of_def get_reader_state_def put_reader_state_def split: option.splits)

lemma state_of_get [simp]: "state_of ip (snd (get_reader_state ip' w)) = state_of ip w"
  by (simp add: state_of_def get_reader_state_def split: option.splits)

lemma fst_get [simp]: "fst (get_reader_state ip w) = state_of ip w"
  by (simp add: state_of_def)

lemma state_of_add_calls [simp]: "state_of ip (add_calls cs w) = state_of ip w"
  by (simp add: state_of_def get_reader_state_def add_calls_def split: option.splits)

lemma state_of_register [simp]: "state_of ip (register_reader e ip' w) = state_of ip w"
  by (simp add: state_of_def get_reader_state_def register_reader_def Let_def split: option.splits)

lemma state_of_touch [simp]: "state_of ip (touch_reader e ip' w) = state_of ip w"
  by (simp add: state_of_def get_reader_state_def touch_reader_def Let_def split: option.splits)

lemma calls_get [simp]: "device_calls (snd (get_reader_state ip w)) = device_calls w"
  by (simp add: get_reader_state_def split: option.splits)

lemma calls_put [simp]: "device_calls (put_reader_state ip s w) = device_calls w"
  by (simp add: put_reader_state_def)

lemma calls_add [simp]: "device_calls (add_calls cs w) = device_calls w @ cs"
  by (simp add: add_calls_def)

lemma calls_register [simp]: "device_calls (register_reader e ip w) = device_calls w"
  by (simp add: register_reader_def Let_def)

lemma calls_touch [simp]: "device_calls (touch_reader e ip w) = device_calls w"
  by (simp add: touch_reader_def Let_def split: option.splits)

lemma stop_reader_playback_idle:
  assumes "current_tag (state_of ip w) = None"
  shows "state_of ip' (stop_reader_playback e ip save pause w) = state_of ip' w"
    and "device_calls (stop_reader_playback e ip save pause w) = device_calls w"
  using assms by (simp_all add: stop_reader_playback_def split_beta)

lemma stop_reader_playback_pause:
  assumes "current_tag (state_of ip w) = Some current"
  shows "state_of ip (stop_reader_playback e ip True True w) =
           (state_of ip w)\<lparr>resume := Some
              \<lparr>res_uid = ct_uid current,
               res_position = get_resume_position e (state_of ip w)
                                (playing_device e ip (state_of ip w)),
               res_device = playing_device e ip (state_of ip w),
               res_paused = True\<rparr>\<rparr>"
    and "device_calls (stop_reader_playback e ip True True w) =
           device_calls w @ [PauseDevice (playing_device e ip (state_of ip w))]"
  using assms by (simp_all add: stop_reader_playback_def split_beta Let_def)

text \<open>
  C10. A tag removal on a reader without current tag answers \<open>found = False\<close>,
  leaves the state of every reader as it was (the resume point with it) and makes no
  call on a device.
\<close>

theorem tag_removal_without_current_tag:
  assumes "req_uid request = None"
    and "current_tag (state_of (request_reader_ip request client_host) w) = None"
  shows "fst (handle_tonie e request client_host w) = Inr (default_response [] False)
       \<and> resp_found (default_response [] False) = False
       \<and> (\<forall>ip. state_of ip (snd (handle_tonie e request client_host w)) = state_of ip w)
       \<and> device_calls (snd (handle_tonie e request client_host w)) = device_calls w"
  using assms
  by (simp add: handle_tonie_def Let_def stop_reader_playback_idle default_response_def)

text \<open>
  C3, as the code has it. A tag removal on a reader with a current tag pauses the
  reader's device, keeps the current tag and every other field, and records as resume
  point the current tag's UID, the computed position, the device and \<open>paused = True\<close>.
  So right after the removal the resume point is paused and the current tag is set.
\<close>

theorem tag_removal_pauses_and_records_resume:
  assumes "req_uid request = None"
    and "current_tag (state_of (request_reader_ip request client_host) w) = Some current"
  shows "fst (handle_tonie e request client_host w) = Inr (default_response [] False)
       \<and> state_of (request_reader_ip request client_host)
            (snd (handle_tonie e request client_host w)) =
          (state_of (request_reader_ip request client_host) w)\<lparr>resume := Some
              \<lparr>res_uid = ct_uid current,
               res_position =
                 get_resume_position e (state_of (request_reader_ip request client_host) w)
                   (playing_device e (request_reader_ip request client_host)
                      (state_of (request_reader_ip request client_host) w)),
               res_device = playing_device e (request_reader_ip request client_host)
                              (state_of (request_reader_ip request client_host) w),
               res_paused = True\<rparr>\<rparr>
       \<and> device_calls (snd (handle_tonie e request client_host w)) =
          device_calls w @ [PauseDevice (playing_device e (request_reader_ip request client_host)
                              (state_of (request_reader_ip request client_host) w))]
       \<and> current_tag (state_of (request_reader_ip request client_host)
            (snd (handle_tonie e request client_host w))) = Some current
       \<and> spec_paused_implies_current (state_of (request_reader_ip request client_host)
            (snd (handle_tonie e request client_host w)))"
  using assms
  by (simp add: handle_tonie_def Let_def stop_reader_playback_pause
        spec_paused_implies_current_def)

lemma state_exists:
  assumes "current_tag (state_of ip w) = Some current"
  shows "reader_states w ip = Some (state_of ip w)"
  using assms
  by (cases "reader_states w ip") (simp_all add: state_of_def get_reader_state_def initial_state_def)

lemma get_reader_state_existing:
  "reader_states w ip = Some s \<Longrightarrow> get_reader_state ip w = (s, w)"
  by (simp add: get_reader_state_def)

lemma reader_states_touch [simp]: "reader_states (touch_reader e ip w) = reader_states w"
  by (simp add: touch_reader_def Let_def split: option.splits)

lemma reader_states_register [simp]: "reader_states (register_reader e ip w) = reader_states w"
  by (simp add: register_reader_def Let_def)

lemma recent_scans_touch [simp]: "recent_scans (touch_reader e ip w) = recent_scans w"
  by (simp add: touch_reader_def Let_def split: option.splits)

lemma play_same_tag:
  assumes "current_tag (state_of reader_ip w) = Some current"
    and "ct_uid current = uid"
    and "\<not> (\<exists>r. resume (state_of reader_ip w) = Some r \<and> res_uid r = uid \<and> res_paused r)"
  shows "play_tonie_for_reader e reader_ip uid device_override record_scan metadata_override w
           = (Inr (snapshot_response uid current False), touch_reader e reader_ip w)"
proof -
  have "reader_states (touch_reader e reader_ip w) reader_ip = Some (state_of reader_ip w)"
    using state_exists [OF assms(1)] by simp
  from get_reader_state_existing [OF this] assms show ?thesis
    by (cases "resume (state_of reader_ip w)")
       (auto simp: play_tonie_for_reader_def Let_def)
qed

lemma same_fields:
  "mode s = m \<Longrightarrow> target_device s = t \<Longrightarrow> espuino_ip s = i
   \<Longrightarrow> s\<lparr>mode := m, target_device := t, espuino_ip := i\<rparr> = s"
  by (cases s) simp

text \<open>
  C4. Let the tag with UID \<open>uid\<close> be the reader's current tag, with no paused resume
  point for it. A scan of \<open>uid\<close> returns the stored snapshot: its series, episode and
  title, its playback URL (a string, not null) and \<open>playback_started = False\<close>; the
  dictionary of reader states, the calls on devices and the scan log are as before.
  Through \<open>POST /tonie\<close> the handler first rewrites mode, target device and reader
  address from the request, so there the reader states are as before when the scan
  repeats the stored values.
\<close>

theorem same_tag_scan_returns_snapshot:
  assumes "current_tag (state_of reader_ip w) = Some current"
    and "ct_uid current = uid"
    and "\<not> (\<exists>r. resume (state_of reader_ip w) = Some r \<and> res_uid r = uid \<and> res_paused r)"
  shows "fst (play_tonie_for_reader e reader_ip uid device_override record_scan
               metadata_override w)
           = Inr ((default_response uid True)
                    \<lparr>resp_series := ct_series current, resp_episode := ct_episode current,
                     resp_title := ct_title current, resp_picture := ct_picture current,
                     resp_playback_started := False,
                     resp_playback_url := Some (ct_playback_url current)\<rparr>)
       \<and> reader_states (snd (play_tonie_for_reader e reader_ip uid device_override record_scan
               metadata_override w)) = reader_states w
       \<and> device_calls (snd (play_tonie_for_reader e reader_ip uid device_override record_scan
               metadata_override w)) = device_calls w
       \<and> recent_scans (snd (play_tonie_for_reader e reader_ip uid device_override record_scan
               metadata_override w)) = recent_scans w
       \<and> (req_uid request = Some uid
          \<and> request_reader_ip request client_host = reader_ip
          \<and> mode (state_of reader_ip w) = Some (req_mode request)
          \<and> target_device (state_of reader_ip w)
                = (if req_mode request = ''stream''
                   then request_device_override e request reader_ip else None)
          \<and> espuino_ip (state_of reader_ip w) = Some reader_ip
          \<longrightarrow> fst (handle_tonie e request client_host w)
                = Inr (snapshot_response uid current False)
              \<and> reader_states (snd (handle_tonie e request client_host w)) = reader_states w
              \<and> device_calls (snd (handle_tonie e request client_host w)) = device_calls w)"
proof (intro conjI impI)
  note same = play_same_tag [OF assms]
  show "fst (play_tonie_for_reader e reader_ip uid device_override record_scan
               metadata_override w)
           = Inr ((default_response uid True)
                    \<lparr>resp_series := ct_series current, resp_episode := ct_episode current,
                     resp_title := ct_title current, resp_picture := ct_picture current,
                     resp_playback_started := False,
                     resp_playback_url := Some (ct_playback_url current)\<rparr>)"
    by (simp add: same snapshot_response_def)
  show "reader_states (snd (play_tonie_for_reader e reader_ip uid device_override record_scan
               metadata_override w)) = reader_states w"
    by (simp add: same)
  show "device_calls (snd (play_tonie_for_reader e reader_ip uid device_override record_scan
               metadata_override w)) = device_calls w"
    by (simp add: same)
  show "recent_scans (snd (play_tonie_for_reader e reader_ip uid device_override record_scan
               metadata_override w)) = recent_scans w"
    by (simp add: same)
next
  assume r: "req_uid request = Some uid
          \<and> request_reader_ip request client_host = reader_ip
          \<and> mode (state_of reader_ip w) = Some (req_mode request)
          \<and> target_device (state_of reader_ip w)
                = (if req_mode request = ''stream''
                   then request_device_override e request reader_ip else None)
          \<and> espuino_ip (state_of reader_ip w) = Some reader_ip"
  let ?st = "state_of reader_ip w"
  let ?w2 = "(register_reader e reader_ip w)\<lparr>connected_readers :=
       (connected_readers (register_reader e reader_ip w))(reader_ip \<mapsto>
          (the (connected_readers (register_reader e reader_ip w) reader_ip))
            \<lparr>scan_count := scan_count
               (the (connected_readers (register_reader e reader_ip w) reader_ip)) + 1\<rparr>)\<rparr>"
  have ex: "reader_states w reader_ip = Some ?st" using state_exists [OF assms(1)] .
  have rs2: "reader_states ?w2 = reader_states w" by simp
  have calls2: "device_calls ?w2 = device_calls w" by simp
  have g: "get_reader_state reader_ip ?w2 = (?st, ?w2)"
    using ex by (simp add: get_reader_state_def)
  have same_state: "?st\<lparr>mode := Some (req_mode request),
        target_device := (if req_mode request = ''stream''
                          then request_device_override e request reader_ip else None),
        espuino_ip := Some reader_ip\<rparr> = ?st"
    using r by (intro same_fields) simp_all
  have put: "put_reader_state reader_ip ?st ?w2 = ?w2"
    using ex by (simp add: put_reader_state_def map_upd_triv)
  have st2: "state_of reader_ip ?w2 = ?st"
    unfolding state_of_def [of reader_ip ?w2] g by (rule fst_conv)
  have h: "handle_tonie e request client_host w
            = play_tonie_for_reader e reader_ip uid (request_device_override e request reader_ip)
                True (Some \<lparr>ov_title = req_title request, ov_series = req_series request,
                        ov_episode = req_episode request, ov_picture = req_picture request,
                        ov_tracks = req_tracks request, ov_audio_url = req_audio_url request\<rparr>) ?w2"
  proof -
    have uidr: "req_uid request = Some uid"
      and rip: "request_reader_ip request client_host = reader_ip"
      using r by simp_all
    show ?thesis
      unfolding handle_tonie_def Let_def rip uidr option.case g prod.case same_state put
      by (rule refl)
  qed
  have a1: "current_tag (state_of reader_ip ?w2) = Some current" using assms(1) st2 by simp
  have a3: "\<not> (\<exists>r. resume (state_of reader_ip ?w2) = Some r \<and> res_uid r = uid \<and> res_paused r)"
    using assms(3) st2 by simp
  note same2 = play_same_tag [OF a1 assms(2) a3]
  show "fst (handle_tonie e request client_host w) = Inr (snapshot_response uid current False)"
    unfolding h same2 by simp
  show "reader_states (snd (handle_tonie e request client_host w)) = reader_states w"
    unfolding h same2 by simp
  show "device_calls (snd (handle_tonie e request client_host w)) = device_calls w"
    unfolding h same2 by simp
qed
text \<open>Unfolding the handlers on the session.\<close>

lemmas reader_eval =
  handle_tonie_def play_tonie_for_reader_def play_new_tag_def handle_control_command_def
  stop_reader_playback_def get_reader_state_def put_reader_state_def add_calls_def
  register_reader_def touch_reader_def request_reader_ip_def request_device_override_def
  or_else_def is_virtual_reader_def playing_device_def get_resume_position_def
  default_response_def snapshot_response_def initial_world_def initial_state_def
  state_of_def demo_env_def scan_request_def removal_request_def speaker_def
  find_tonie_by_uid_def uid_matches_def normalize_uid_def py_upper_def py_upper_char_def
  py_lower_def py_lower_char_def long_tag_def tag_result_def tonie_tracks_def get_tracks_def
  get_duration_def suffix_def prefix_def Let_def

text \<open>A removal as the first request the server ever gets.\<close>

theorem tag_removal_without_current_tag_witness:
  "req_uid removal_request = None
   \<and> current_tag (state_of (request_reader_ip removal_request None) initial_world) = None
   \<and> fst (handle_tonie demo_env removal_request None initial_world)
       = Inr (default_response [] False)
   \<and> state_of ''192.0.2.10'' (snd (handle_tonie demo_env removal_request None initial_world))
       = initial_state
   \<and> device_calls (snd (handle_tonie demo_env removal_request None initial_world)) = []"
proof -
  have a: "req_uid removal_request = None"
    by (simp add: removal_request_def)
  have b: "current_tag (state_of (request_reader_ip removal_request None) initial_world) = None"
    by (simp add: state_of_def get_reader_state_def initial_world_def initial_state_def)
  have c: "state_of ''192.0.2.10'' initial_world = initial_state"
    "device_calls initial_world = []"
    by (simp_all add: state_of_def get_reader_state_def initial_world_def)
  from tag_removal_without_current_tag [OF a b, of demo_env] a b c
  show ?thesis by simp
qed

text \<open>The session after the scan.\<close>

lemma playing_now:
  "map_option ct_uid (current_tag (state_of ''192.0.2.10'' w_playing))
     = Some ''E0:04:03:50:13:16:80:4B''"
  "map_option ct_playback_url (current_tag (state_of ''192.0.2.10'' w_playing))
     = Some ''http://192.0.2.1:8754/transcode.mp3?url=x''"
  "resume (state_of ''192.0.2.10'' w_playing) = None"
  "current_device (state_of ''192.0.2.10'' w_playing) = Some speaker"
  "mode (state_of ''192.0.2.10'' w_playing) = Some ''stream''"
  "target_device (state_of ''192.0.2.10'' w_playing) = Some speaker"
  "espuino_ip (state_of ''192.0.2.10'' w_playing) = Some ''192.0.2.10''"
  "device_calls w_playing
     = [StartPlayback speaker ''http://192.0.2.1:8754/transcode.mp3?url=x'']"
  by (simp_all add: w_playing_def reader_eval)

text \<open>The removal of the session: the speaker is paused at position 42.\<close>

theorem tag_removal_pauses_and_records_resume_witness:
  "req_uid removal_request = None
   \<and> current_tag (state_of (request_reader_ip removal_request None) w_playing)
       = Some (the (current_tag (state_of ''192.0.2.10'' w_playing)))
   \<and> current_tag (state_of ''192.0.2.10'' w_removed)
       = current_tag (state_of ''192.0.2.10'' w_playing)
   \<and> resume (state_of ''192.0.2.10'' w_removed)
       = Some \<lparr>res_uid = ''E0:04:03:50:13:16:80:4B'', res_position = 42,
               res_device = speaker, res_paused = True\<rparr>
   \<and> device_calls w_removed
       = [StartPlayback speaker ''http://192.0.2.1:8754/transcode.mp3?url=x'',
          PauseDevice speaker]"
proof -
  let ?cur = "the (current_tag (state_of ''192.0.2.10'' w_playing))"
  have ip: "request_reader_ip removal_request None = ''192.0.2.10''"
    by (simp add: request_reader_ip_def removal_request_def scan_request_def or_else_def)
  have a: "req_uid removal_request = None"
    by (simp add: removal_request_def)
  have b: "current_tag (state_of (request_reader_ip removal_request None) w_playing) = Some ?cur"
    using playing_now(1) unfolding ip by (cases "current_tag (state_of ''192.0.2.10'' w_playing)") simp_all
  have uid: "ct_uid ?cur = ''E0:04:03:50:13:16:80:4B''"
    using playing_now(1) by (cases "current_tag (state_of ''192.0.2.10'' w_playing)") simp_all
  have dev: "playing_device demo_env ''192.0.2.10'' (state_of ''192.0.2.10'' w_playing) = speaker"
    by (simp add: playing_device_def playing_now(4))
  have pos: "get_resume_position demo_env (state_of ''192.0.2.10'' w_playing) speaker = 42"
    by (simp add: get_resume_position_def demo_env_def speaker_def)
  from tag_removal_pauses_and_records_resume [OF a b, of demo_env]
  show ?thesis
    unfolding ip w_removed_def [symmetric] using a b [unfolded ip]
    by (simp add: uid dev pos playing_now(8))
qed

text \<open>The scan of the session, sent a second time.\<close>

theorem same_tag_scan_returns_snapshot_witness:
  "current_tag (state_of ''192.0.2.10'' w_playing)
       = Some (the (current_tag (state_of ''192.0.2.10'' w_playing)))
   \<and> ct_uid (the (current_tag (state_of ''192.0.2.10'' w_playing)))
       = ''E0:04:03:50:13:16:80:4B''
   \<and> resume (state_of ''192.0.2.10'' w_playing) = None
   \<and> map_sum id resp_playback_url (fst (handle_tonie demo_env scan_request None w_playing))
       = Inr (Some ''http://192.0.2.1:8754/transcode.mp3?url=x'')
   \<and> map_sum id resp_playback_started (fst (handle_tonie demo_env scan_request None w_playing))
       = Inr False
   \<and> reader_states (snd (handle_tonie demo_env scan_request None w_playing))
       = reader_states w_playing
   \<and> device_calls (snd (handle_tonie demo_env scan_request None w_playing))
       = device_calls w_playing"
proof -
  let ?cur = "the (current_tag (state_of ''192.0.2.10'' w_playing))"
  have a: "current_tag (state_of ''192.0.2.10'' w_playing) = Some ?cur"
    using playing_now(1) by (cases "current_tag (state_of ''192.0.2.10'' w_playing)") simp_all
  have b: "ct_uid ?cur = ''E0:04:03:50:13:16:80:4B''"
    using playing_now(1) by (cases "current_tag (state_of ''192.0.2.10'' w_playing)") simp_all
  have url: "ct_playback_url ?cur = ''http://192.0.2.1:8754/transcode.mp3?url=x''"
    using playing_now(2) by (cases "current_tag (state_of ''192.0.2.10'' w_playing)") simp_all
  have c: "\<not> (\<exists>r. resume (state_of ''192.0.2.10'' w_playing) = Some r
              \<and> res_uid r = ''E0:04:03:50:13:16:80:4B'' \<and> res_paused r)"
    by (simp add: playing_now(3))
  have d: "req_uid scan_request = Some ''E0:04:03:50:13:16:80:4B''
          \<and> request_reader_ip scan_request None = ''192.0.2.10''
          \<and> mode (state_of ''192.0.2.10'' w_playing) = Some (req_mode scan_request)
          \<and> target_device (state_of ''192.0.2.10'' w_playing)
                = (if req_mode scan_request = ''stream''
                   then request_device_override demo_env scan_request ''192.0.2.10'' else None)
          \<and> espuino_ip (state_of ''192.0.2.10'' w_playing) = Some ''192.0.2.10''"
    by (simp add: playing_now scan_request_def request_reader_ip_def or_else_def
          request_device_override_def Let_def)
  from same_tag_scan_returns_snapshot [OF a b c, of demo_env None True None scan_request None] d
  have "fst (handle_tonie demo_env scan_request None w_playing)
          = Inr (snapshot_response ''E0:04:03:50:13:16:80:4B'' ?cur False)
      \<and> reader_states (snd (handle_tonie demo_env scan_request None w_playing))
          = reader_states w_playing
      \<and> device_calls (snd (handle_tonie demo_env scan_request None w_playing))
          = device_calls w_playing"
    by blast
  then show ?thesis
    using a b by (simp add: snapshot_response_def url playing_now(3))
qed

text \<open>
  The claim's invariant over all reachable states fails. After the removal the resume
  point is paused and the current tag is set; the stop button then clears the current
  tag and leaves the resume point alone, so the reachable state \<open>w_stopped\<close> has a
  paused resume point and no current tag.
\<close>

theorem paused_resume_without_current_tag_counterexample:
  "reachable w_stopped
   \<and> map_option ct_uid (current_tag (state_of ''192.0.2.10'' w_removed))
       = Some ''E0:04:03:50:13:16:80:4B''
   \<and> map_option res_paused (resume (state_of ''192.0.2.10'' w_removed)) = Some True
   \<and> current_tag (state_of ''192.0.2.10'' w_stopped) = None
   \<and> map_option res_paused (resume (state_of ''192.0.2.10'' w_stopped)) = Some True
   \<and> \<not> spec_paused_implies_current (state_of ''192.0.2.10'' w_stopped)"
proof -
  have r: "reachable w_stopped"
    unfolding w_stopped_def w_removed_def w_playing_def
    by (intro reachable.intros)
  have a: "map_option ct_uid (current_tag (state_of ''192.0.2.10'' w_removed))
       = Some ''E0:04:03:50:13:16:80:4B''
     \<and> map_option res_paused (resume (state_of ''192.0.2.10'' w_removed)) = Some True"
    by (simp add: w_removed_def w_playing_def reader_eval)
  have b: "current_tag (state_of ''192.0.2.10'' w_stopped) = None
     \<and> map_option res_paused (resume (state_of ''192.0.2.10'' w_stopped)) = Some True"
    by (simp add: w_stopped_def w_removed_def w_playing_def reader_eval)
  from b have "\<not> spec_paused_implies_current (state_of ''192.0.2.10'' w_stopped)"
    by (cases "resume (state_of ''192.0.2.10'' w_stopped)")
       (simp_all add: spec_paused_implies_current_def)
  with r a b show ?thesis by blast
qed

end
